theory Spec2Isabelle
  imports Main
begin

section \<open>Values, exceptions and the outside world\<close>

text \<open>
  The scripts exchange JSON values with remote services. A JSON object is kept as an
  association list in the order of its keys; a number is kept as its literal, since the
  scripts only pass numbers through.
\<close>

datatype json =
    JNull
  | JBool bool
  | JNum string
  | JString string
  | JArray "json list"
  | JObject "(string \<times> json) list"

text \<open>A Python exception: its class and the text that \<open>str(e)\<close> gives.\<close>

datatype exn_class =
    KeyError | TypeError | IndexError | AttributeError | JSONDecodeError | RequestException
  | EOFError

datatype exn = Exn exn_class string

fun str_exn :: "exn \<Rightarrow> string" where
  "str_exn (Exn c msg) = msg"

text \<open>
  An HTTP response as the scripts read it: \<open>status_code\<close>, \<open>text\<close> and the outcome of
  \<open>response.json()\<close>, which raises on a body that is not JSON.
\<close>

record response =
  status_code :: int
  text_body :: string
  json_body :: "exn + json"

record http_request =
  url :: string
  payload :: json

text \<open>
  The world outside a script: the \<open>n\<close>-th HTTP request made gets the answer
  \<open>http n request\<close>, a response or the exception that \<open>requests\<close> raises. The two logs
  record what the script did: the handlers it invoked with their arguments, and the
  tool outputs it submitted to a run.
\<close>

record tool_output =
  tool_call_id :: string
  output_payload :: string

record world =
  http :: "nat \<Rightarrow> http_request \<Rightarrow> exn + response"
  clock :: nat
  invoked :: "(string \<times> json list) list"
  submitted :: "tool_output list list"

definition requests_send :: "http_request \<Rightarrow> world \<Rightarrow> (exn + response) \<times> world" where
  "requests_send rq w = (http w (clock w) rq, w\<lparr>clock := Suc (clock w)\<rparr>)"

text \<open>
  What the scripts take from their surroundings: the JSON codec of the standard library
  and the configuration read from environment variables.
\<close>

record env =
  json_loads :: "string \<Rightarrow> exn + json"
  json_dumps_indent4 :: "json \<Rightarrow> string"
  OPENWEATHER_MAP_API_KEY :: string
  FRESHDESK_DOMAIN :: string
  LOGIC_APPS_FULL_URL :: "exn + http_request"

section \<open>Rendering an integer, as an f-string does\<close>

fun str_nat :: "nat \<Rightarrow> string" where
  "str_nat n =
     (if n < 10 then [char_of (48 + n)]
      else str_nat (n div 10) @ [char_of (48 + n mod 10)])"

definition str_int :: "int \<Rightarrow> string" where
  "str_int i = (if i < 0 then ''-'' @ str_nat (nat (- i)) else str_nat (nat i))"

section \<open>Reading decoded JSON as Python does\<close>

definition bind_exn :: "exn + 'a \<Rightarrow> ('a \<Rightarrow> exn + 'b) \<Rightarrow> exn + 'b" where
  "bind_exn m f = (case m of Inl e \<Rightarrow> Inl e | Inr x \<Rightarrow> f x)"

text \<open>The name of the Python type that \<open>json.loads\<close> gives a value.\<close>

fun type_name :: "json \<Rightarrow> string" where
  "type_name JNull = ''NoneType''"
| "type_name (JBool b) = ''bool''"
| "type_name (JNum s) =
     (if set s \<subseteq> set ''-0123456789'' then ''int'' else ''float'')"
| "type_name (JString s) = ''str''"
| "type_name (JArray xs) = ''list''"
| "type_name (JObject kvs) = ''dict''"

text \<open>\<open>repr\<close> of a key, for the plain keys that the scripts use.\<close>

definition repr_key :: "string \<Rightarrow> string" where
  "repr_key k = [CHR 0x27] @ k @ [CHR 0x27]"

text \<open>\<open>x[k]\<close> with a string key: only a dict has one.\<close>

fun subscript_key :: "json \<Rightarrow> string \<Rightarrow> exn + json" where
  "subscript_key (JObject kvs) k =
     (case map_of kvs k of
        None \<Rightarrow> Inl (Exn KeyError (repr_key k))
      | Some v \<Rightarrow> Inr v)"
| "subscript_key (JArray xs) k =
     Inl (Exn TypeError ''list indices must be integers or slices, not str'')"
| "subscript_key (JString s) k =
     Inl (Exn TypeError (''string indices must be integers, not '' @ repr_key ''str''))"
| "subscript_key v k =
     Inl (Exn TypeError (repr_key (type_name v) @ '' object is not subscriptable''))"

text \<open>
  \<open>x[0]\<close>: the first element of a list, the first character of a string; on a dict the
  key \<open>0\<close> is looked up, which no decoded JSON object has (its keys are strings).
\<close>

fun subscript_0 :: "json \<Rightarrow> exn + json" where
  "subscript_0 (JArray []) = Inl (Exn IndexError ''list index out of range'')"
| "subscript_0 (JArray (x # xs)) = Inr x"
| "subscript_0 (JString []) = Inl (Exn IndexError ''string index out of range'')"
| "subscript_0 (JString (c # cs)) = Inr (JString [c])"
| "subscript_0 (JObject kvs) = Inl (Exn KeyError ''0'')"
| "subscript_0 v =
     Inl (Exn TypeError (repr_key (type_name v) @ '' object is not subscriptable''))"

text \<open>\<open>x.get(k, default)\<close>: a method of dicts only.\<close>

fun dict_get :: "json \<Rightarrow> string \<Rightarrow> json \<Rightarrow> exn + json" where
  "dict_get (JObject kvs) k d =
     (case map_of kvs k of None \<Rightarrow> Inr d | Some v \<Rightarrow> Inr v)"
| "dict_get v k d =
     Inl (Exn AttributeError
            (repr_key (type_name v) @ '' object has no attribute '' @ repr_key ''get''))"

text \<open>\<open>json.loads\<close> of a value that may be \<open>None\<close>: only text is decoded.\<close>

definition loads :: "env \<Rightarrow> string option \<Rightarrow> exn + json" where
  "loads ev a =
     (case a of
        None \<Rightarrow>
          Inl (Exn TypeError
                 ''the JSON object must be str, bytes or bytearray, not NoneType'')
      | Some s \<Rightarrow> json_loads ev s)"

section \<open>The email integration\<close>

text \<open>The two marks of the result strings, U+2705 and U+274C, in UTF-8.\<close>

definition check_mark :: string where
  "check_mark = [CHR 0xE2, CHR 0x9C, CHR 0x85]"

definition cross_mark :: string where
  "cross_mark = [CHR 0xE2, CHR 0x9D, CHR 0x8C]"

definition enter :: "string \<Rightarrow> json list \<Rightarrow> world \<Rightarrow> world" where
  "enter f args w = w\<lparr>invoked := invoked w @ [(f, args)]\<rparr>"

text \<open>
  \<open>send_email_function\<close>: the body of the \<open>try\<close> first, in its two steps. The field
  \<open>LOGIC_APPS_FULL_URL\<close> of the environment is the outcome of splitting the configured
  URL with \<open>urlparse\<close> and \<open>parse_qs\<close> (the request target, or the exception raised
  there); the JSON body of the request is filled in here.
\<close>

definition logic_apps_post ::
  "env \<Rightarrow> json \<Rightarrow> json \<Rightarrow> json \<Rightarrow> world \<Rightarrow> (exn + response) \<times> world" where
  "logic_apps_post ev email_to email_subject email_body w =
     (case LOGIC_APPS_FULL_URL ev of
        Inl e \<Rightarrow> (Inl e, w)
      | Inr parsed \<Rightarrow>
          requests_send
            (parsed\<lparr>payload := JObject [(''email_to'', email_to),
                                         (''email_subject'', email_subject),
                                         (''email_body'', email_body)]\<rparr>) w)"

definition send_email_try ::
  "env \<Rightarrow> json \<Rightarrow> json \<Rightarrow> json \<Rightarrow> world \<Rightarrow> (exn + string) \<times> world" where
  "send_email_try ev email_to email_subject email_body w =
     (case logic_apps_post ev email_to email_subject email_body w of
        (Inl e, w') \<Rightarrow> (Inl e, w')
      | (Inr rsp, w') \<Rightarrow>
          (Inr (if status_code rsp \<in> set [200, 202]
                then check_mark @ '' Email sent!''
                else cross_mark @ '' Failed: '' @ str_int (status_code rsp)), w'))"

definition send_email_function ::
  "env \<Rightarrow> json \<Rightarrow> json \<Rightarrow> json \<Rightarrow> world \<Rightarrow> string \<times> world" where
  "send_email_function ev email_to email_subject email_body w =
     (case send_email_try ev email_to email_subject email_body
             (enter ''send_email_function'' [email_to, email_subject, email_body] w) of
        (Inl e, w') \<Rightarrow> (cross_mark @ '' Error: '' @ str_exn e, w')
      | (Inr s, w') \<Rightarrow> (s, w'))"

text \<open>
  A tool call of a run (\<open>call.id\<close>, \<open>call.function.name\<close>, \<open>call.function.arguments\<close>)
  and a run as the scripts read it: its status and, when it has one, the tool calls of
  its \<open>required_action.submit_tool_outputs\<close>.
\<close>

record tool_call =
  call_id :: string
  function_name :: string
  function_arguments :: "string option"

record run =
  status :: string
  required_action :: "tool_call list option"

text \<open>
  The \<open>for\<close> loop of \<open>chat\<close> over the tool calls, with \<open>outputs\<close> as accumulator. A call
  of another name than \<open>send_email\<close> is passed over. Nothing in the loop catches an
  exception.
\<close>

fun chat_for ::
  "env \<Rightarrow> tool_call list \<Rightarrow> tool_output list \<Rightarrow> world \<Rightarrow> (exn + tool_output list) \<times> world"
where
  "chat_for ev [] outputs w = (Inr outputs, w)"
| "chat_for ev (call # calls) outputs w =
     (if function_name call = ''send_email'' then
        (case bind_exn (loads ev (function_arguments call)) (\<lambda>args.
              bind_exn (subscript_key args ''email_to'') (\<lambda>email_to.
              bind_exn (subscript_key args ''email_subject'') (\<lambda>email_subject.
              bind_exn (subscript_key args ''email_body'') (\<lambda>email_body.
              Inr (email_to, email_subject, email_body))))) of
           Inl e \<Rightarrow> (Inl e, w)
         | Inr (email_to, email_subject, email_body) \<Rightarrow>
             (case send_email_function ev email_to email_subject email_body w of
                (result, w') \<Rightarrow>
                  chat_for ev calls
                    (outputs @ [\<lparr>tool_call_id = call_id call, output_payload = result\<rparr>]) w'))
      else chat_for ev calls outputs w)"

text \<open>
  The \<open>while\<close> loop of \<open>chat\<close>. The remote service is the list of its answers to the
  successive calls \<open>runs.submit_tool_outputs\<close> and \<open>runs.get\<close>, each a run or an exception
  of the SDK; the result is \<open>None\<close> when the loop is still running at the end of the list.
\<close>

definition active :: "string list" where
  "active = [''queued'', ''in_progress'', ''requires_action'']"

definition submit_tool_outputs :: "tool_output list \<Rightarrow> world \<Rightarrow> world" where
  "submit_tool_outputs outputs w = w\<lparr>submitted := submitted w @ [outputs]\<rparr>"

fun chat_while ::
  "env \<Rightarrow> run \<Rightarrow> (exn + run) list \<Rightarrow> world \<Rightarrow> (exn + run) option \<times> world"
where
  "chat_while ev rn service w =
     (if status rn \<in> set active then
        (if status rn = ''requires_action'' then
           (case required_action rn of
              None \<Rightarrow>
                (Some (Inl (Exn AttributeError
                   (repr_key ''NoneType'' @ '' object has no attribute ''
                      @ repr_key ''submit_tool_outputs''))), w)
            | Some calls \<Rightarrow>
                (case chat_for ev calls [] w of
                   (Inl e, w') \<Rightarrow> (Some (Inl e), w')
                 | (Inr outputs, w') \<Rightarrow>
                     (case service of
                        [] \<Rightarrow> (None, submit_tool_outputs outputs w')
                      | Inl e # service' \<Rightarrow> (Some (Inl e), submit_tool_outputs outputs w')
                      | Inr rn' # service' \<Rightarrow>
                          (case service' of
                             [] \<Rightarrow> (None, submit_tool_outputs outputs w')
                           | Inl e # service'' \<Rightarrow>
                               (Some (Inl e), submit_tool_outputs outputs w')
                           | Inr rn'' # service'' \<Rightarrow>
                               chat_while ev rn'' service''
                                 (submit_tool_outputs outputs w')))))
         else
           (case service of
              [] \<Rightarrow> (None, w)
            | Inl e # service' \<Rightarrow> (Some (Inl e), w)
            | Inr rn' # service' \<Rightarrow> chat_while ev rn' service' w))
      else (Some (Inr rn), w))"

section \<open>The Freshdesk integration\<close>

definition ticket_request :: "env \<Rightarrow> json \<Rightarrow> json \<Rightarrow> http_request" where
  "ticket_request ev Email Subject =
     \<lparr>url = ''https://'' @ FRESHDESK_DOMAIN ev @ ''/api/v2/tickets'',
      payload = JObject
        [(''email'', Email),
         (''subject'', Subject),
         (''description'', JString ''This ticket was created via Azure AI Agent.''),
         (''priority'', JNum ''2''),
         (''status'', JNum ''2''),
         (''tags'', JArray [JString ''AI-Agent'', JString ''Automation''])]\<rparr>"

definition create_freshdesk_ticket ::
  "env \<Rightarrow> json \<Rightarrow> json \<Rightarrow> world \<Rightarrow> (exn + string) \<times> world" where
  "create_freshdesk_ticket ev Email Subject w =
     (case requests_send (ticket_request ev Email Subject)
             (enter ''create_freshdesk_ticket'' [Email, Subject] w) of
        (Inl e, w') \<Rightarrow> (Inl e, w')
      | (Inr rsp, w') \<Rightarrow>
          (if status_code rsp = 201 then
             (case json_body rsp of
                Inl e \<Rightarrow> (Inl e, w')
              | Inr body \<Rightarrow> (Inr (json_dumps_indent4 ev body), w'))
           else
             (Inr (json_dumps_indent4 ev
                     (JObject [(''status_code'', JNum (str_int (status_code rsp))),
                               (''error'', JString (text_body rsp))])), w')))"

text \<open>\<open>tool_call.function.arguments or "{}"\<close>: \<open>None\<close> and the empty string are falsy.\<close>

definition arguments_or :: "string option \<Rightarrow> string" where
  "arguments_or a = (case a of None \<Rightarrow> ''{}'' | Some s \<Rightarrow> (if s = [] then ''{}'' else s))"

text \<open>
  The \<open>for\<close> loop over the tool calls of a run that requires action, with
  \<open>tool_outputs\<close> as accumulator. The arguments are decoded before the name is looked
  at, and nothing in the loop catches an exception.
\<close>

fun tool_calls_for ::
  "env \<Rightarrow> tool_call list \<Rightarrow> tool_output list \<Rightarrow> world \<Rightarrow> (exn + tool_output list) \<times> world"
where
  "tool_calls_for ev [] tool_outputs w = (Inr tool_outputs, w)"
| "tool_calls_for ev (tc # tcs) tool_outputs w =
     (case json_loads ev (arguments_or (function_arguments tc)) of
        Inl e \<Rightarrow> (Inl e, w)
      | Inr func_args \<Rightarrow>
          (if function_name tc = ''create_freshdesk_ticket'' then
             (case bind_exn (dict_get func_args ''Email'' (JString [])) (\<lambda>Email.
                   bind_exn (dict_get func_args ''Subject'' (JString [])) (\<lambda>Subject.
                   Inr (Email, Subject))) of
                Inl e \<Rightarrow> (Inl e, w)
              | Inr (Email, Subject) \<Rightarrow>
                  (case create_freshdesk_ticket ev Email Subject w of
                     (Inl e, w') \<Rightarrow> (Inl e, w')
                   | (Inr result, w') \<Rightarrow>
                       tool_calls_for ev tcs
                         (tool_outputs @
                            [\<lparr>tool_call_id = call_id tc, output_payload = result\<rparr>]) w'))
           else
             tool_calls_for ev tcs
               (tool_outputs @
                  [\<lparr>tool_call_id = call_id tc,
                    output_payload = json_dumps_indent4 ev
                      (JObject [(''error'',
                                 JString (''Unknown tool '' @ function_name tc))])\<rparr>]) w))"

text \<open>
  The polling loop of the script: each round first asks the service for the run, then
  handles its tool calls when it requires action, and submits the outputs.
\<close>

fun poll_while ::
  "env \<Rightarrow> run \<Rightarrow> (exn + run) list \<Rightarrow> world \<Rightarrow> (exn + run) option \<times> world"
where
  "poll_while ev rn service w =
     (if status rn \<in> set active then
        (case service of
           [] \<Rightarrow> (None, w)
         | Inl e # service' \<Rightarrow> (Some (Inl e), w)
         | Inr rn' # service' \<Rightarrow>
             (case (if status rn' = ''requires_action'' then required_action rn' else None) of
                None \<Rightarrow> poll_while ev rn' service' w
              | Some tool_calls \<Rightarrow>
                  (case tool_calls_for ev tool_calls [] w of
                     (Inl e, w') \<Rightarrow> (Some (Inl e), w')
                   | (Inr tool_outputs, w') \<Rightarrow>
                       (case service' of
                          [] \<Rightarrow> (None, submit_tool_outputs tool_outputs w')
                        | Inl e # service'' \<Rightarrow>
                            (Some (Inl e), submit_tool_outputs tool_outputs w')
                        | Inr rn'' # service'' \<Rightarrow>
                            poll_while ev rn'' service''
                              (submit_tool_outputs tool_outputs w')))))
      else (Some (Inr rn), w))"

section \<open>The weather function of the function-calling agent\<close>

text \<open>
  \<open>get_weather\<close>: the body of the \<open>try\<close> first. The two coordinates are given as the
  text that the f-string renders them to.
\<close>

definition weather_fields :: "json \<Rightarrow> exn + (string \<times> json) list" where
  "weather_fields data =
     bind_exn (bind_exn (subscript_key data ''coord'') (\<lambda>c. subscript_key c ''lat''))
       (\<lambda>lat.
     bind_exn (bind_exn (subscript_key data ''coord'') (\<lambda>c. subscript_key c ''lon''))
       (\<lambda>lon.
     bind_exn (bind_exn (bind_exn (subscript_key data ''weather'') subscript_0)
                 (\<lambda>x. subscript_key x ''description''))
       (\<lambda>description.
     bind_exn (bind_exn (subscript_key data ''main'') (\<lambda>m. subscript_key m ''temp''))
       (\<lambda>temp.
     bind_exn (dict_get data ''name'' (JString ''Unknown''))
       (\<lambda>city.
     Inr [(''latitude'', lat),
          (''longitude'', lon),
          (''weather_condition'', description),
          (''temperature'', temp),
          (''city'', city)])))))"

definition weather_request :: "env \<Rightarrow> string \<Rightarrow> string \<Rightarrow> http_request" where
  "weather_request ev latitude longitude =
     \<lparr>url = ''https://api.openweathermap.org/data/2.5/weather''
              @ ''?lat='' @ latitude @ ''&lon='' @ longitude
              @ ''&appid='' @ OPENWEATHER_MAP_API_KEY ev @ ''&units=metric'',
      payload = JNull\<rparr>"

definition get_weather_try ::
  "env \<Rightarrow> string \<Rightarrow> string \<Rightarrow> world \<Rightarrow> (exn + (string \<times> json) list) \<times> world" where
  "get_weather_try ev latitude longitude w =
     (case requests_send (weather_request ev latitude longitude) w of
        (Inl e, w') \<Rightarrow> (Inl e, w')
      | (Inr rsp, w') \<Rightarrow>
          (case json_body rsp of
             Inl e \<Rightarrow> (Inl e, w')
           | Inr data \<Rightarrow>
               (if status_code rsp \<noteq> 200 then
                  (bind_exn (dict_get data ''message'' (JString ''API error''))
                     (\<lambda>m. Inr [(''error'', m)]), w')
                else (weather_fields data, w'))))"

definition get_weather ::
  "env \<Rightarrow> string \<Rightarrow> string \<Rightarrow> world \<Rightarrow> (string \<times> json) list \<times> world" where
  "get_weather ev latitude longitude w =
     (case get_weather_try ev latitude longitude w of
        (Inl e, w') \<Rightarrow> ([(''error'', JString (str_exn e))], w')
      | (Inr d, w') \<Rightarrow> (d, w'))"

section \<open>The chat loops and a failed run\<close>

text \<open>
  \<open>str.lower\<close> and \<open>str.strip\<close>, on ASCII text: letters and white space outside ASCII,
  which Python lower-cases and strips as well, are left as they are.
\<close>

definition lower :: "string \<Rightarrow> string" where
  "lower s =
     map (\<lambda>c. if 65 \<le> (of_char c :: nat) \<and> (of_char c :: nat) \<le> 90
               then char_of ((of_char c :: nat) + 32) else c) s"

definition is_space :: "char \<Rightarrow> bool" where
  "is_space c =
     ((9 \<le> (of_char c :: nat) \<and> (of_char c :: nat) \<le> 13)
      \<or> (28 \<le> (of_char c :: nat) \<and> (of_char c :: nat) \<le> 32))"

definition strip :: "string \<Rightarrow> string" where
  "strip s = rev (dropWhile is_space (rev (dropWhile is_space s)))"

text \<open>
  One turn of a chat: the line that \<open>input\<close> returns, the status of the run once the SDK
  has processed it, the statuses that polling the run then shows, and the outcome of the
  rest of the loop body, which reads the messages of the thread and prints the reply.
  What a loop does is the list of its events, and how it ends: by \<open>break\<close>, by an
  exception, or never.
\<close>

record turn =
  user_input :: string
  run_status :: string
  polled :: "string list"
  reply :: "exn + string"

datatype event = Sent string | RunFailed string | Reply string | Ending

datatype ending = Left | Raised exn | Hangs

definition eof :: exn where
  "eof = Exn EOFError ''EOF when reading a line''"

fun azureai_search_chat :: "turn list \<Rightarrow> event list \<times> ending" where
  "azureai_search_chat [] = ([], Raised eof)"
| "azureai_search_chat (t # ts) =
     (if strip (lower (user_input t)) = ''end'' then ([Ending], Left)
      else if run_status t = ''failed'' then
        ([Sent (user_input t), RunFailed (run_status t)], Left)
      else
        (case reply t of
           Inl e \<Rightarrow> ([Sent (user_input t)], Raised e)
         | Inr r \<Rightarrow>
             (case azureai_search_chat ts of
                (evs, how) \<Rightarrow> (Sent (user_input t) # Reply r # evs, how))))"

fun filesearch_chat :: "turn list \<Rightarrow> event list \<times> ending" where
  "filesearch_chat [] = ([], Raised eof)"
| "filesearch_chat (t # ts) =
     (if lower (strip (user_input t)) \<in> set [''exit'', ''quit'', ''end'']
      then ([Ending], Left)
      else if run_status t = ''failed'' then
        (case filesearch_chat ts of
           (evs, how) \<Rightarrow>
             (Sent (strip (user_input t)) # RunFailed (run_status t) # evs, how))
      else
        (case reply t of
           Inl e \<Rightarrow> ([Sent (strip (user_input t))], Raised e)
         | Inr r \<Rightarrow>
             (case filesearch_chat ts of
                (evs, how) \<Rightarrow> (Sent (strip (user_input t)) # Reply r # evs, how))))"

text \<open>
  The code interpreter script polls the run itself until it shows one of the three final
  statuses, and sends the CSV data along with each question.
\<close>

fun code_interpreter_chat :: "string \<Rightarrow> turn list \<Rightarrow> event list \<times> ending" where
  "code_interpreter_chat csv_content [] = ([], Raised eof)"
| "code_interpreter_chat csv_content (t # ts) =
     (if lower (strip (user_input t)) \<in> set [''exit'', ''quit''] then ([], Left)
      else
        (case dropWhile (\<lambda>s. s \<notin> set [''completed'', ''failed'', ''cancelled''])
                (polled t) of
           [] \<Rightarrow>
             ([Sent (strip (user_input t) @ [CHR 0x0A, CHR 0x0A] @ ''CSV Data:''
                       @ [CHR 0x0A] @ csv_content)], Hangs)
         | final # rest \<Rightarrow>
             (if final \<noteq> ''completed'' then
                (case code_interpreter_chat csv_content ts of
                   (evs, how) \<Rightarrow>
                     (Sent (strip (user_input t) @ [CHR 0x0A, CHR 0x0A] @ ''CSV Data:''
                              @ [CHR 0x0A] @ csv_content)
                      # RunFailed final # evs, how))
              else
                (case reply t of
                   Inl e \<Rightarrow>
                     ([Sent (strip (user_input t) @ [CHR 0x0A, CHR 0x0A] @ ''CSV Data:''
                               @ [CHR 0x0A] @ csv_content)], Raised e)
                 | Inr r \<Rightarrow>
                     (case code_interpreter_chat csv_content ts of
                        (evs, how) \<Rightarrow>
                          (Sent (strip (user_input t) @ [CHR 0x0A, CHR 0x0A]
                                   @ ''CSV Data:'' @ [CHR 0x0A] @ csv_content)
                           # Reply r # evs, how))))))"

section \<open>What the specification asks of a resolution\<close>

text \<open>
  The result of handling the tool calls \<open>calls\<close> answers each of them once: there are
  outputs, as many as calls, and their identifiers are those of the calls.
\<close>

definition one_output_each :: "tool_call list \<Rightarrow> exn + tool_output list \<Rightarrow> bool" where
  "one_output_each calls result =
     (case result of
        Inl e \<Rightarrow> False
      | Inr outs \<Rightarrow>
          length outs = length calls
          \<and> set (map tool_call_id outs) = set (map call_id calls))"

section \<open>A sample environment\<close>

text \<open>
  For the examples below: a decoder and an encoder that agree with \<open>json.loads\<close> and
  \<open>json.dumps(..., indent=4)\<close> on the few texts and values that the examples use (the
  decoder raises on every other text, as \<open>json.loads\<close> does on \<open>oops\<close>), and a world that
  starts with empty logs.
\<close>

definition sample_loads :: "string \<Rightarrow> exn + json" where
  \<open>sample_loads s =
     (if s = ''{}'' then Inr (JObject [])
      else if s = ''{"Subject": "Printer"}'' then
        Inr (JObject [(''Subject'', JString ''Printer'')])
      else if s = ''{"email_to": "a@b.c", "email_subject": "Hi", "email_body": "Hello"}''
      then Inr (JObject [(''email_to'', JString ''a@b.c''),
                         (''email_subject'', JString ''Hi''),
                         (''email_body'', JString ''Hello'')])
      else Inl (Exn JSONDecodeError ''Expecting value: line 1 column 1 (char 0)''))\<close>

fun sample_value :: "json \<Rightarrow> string" where
  \<open>sample_value (JString s) = ''"'' @ s @ ''"''\<close>
| \<open>sample_value (JNum s) = s\<close>
| \<open>sample_value v = ''null''\<close>

fun sample_items :: "(string \<times> json) list \<Rightarrow> string" where
  \<open>sample_items [] = []\<close>
| \<open>sample_items [(k, v)] = ''    "'' @ k @ ''": '' @ sample_value v @ [CHR 0x0A]\<close>
| \<open>sample_items ((k, v) # kvs) =
     ''    "'' @ k @ ''": '' @ sample_value v @ '','' @ [CHR 0x0A] @ sample_items kvs\<close>

fun sample_dumps :: "json \<Rightarrow> string" where
  \<open>sample_dumps (JObject []) = ''{}''\<close>
| \<open>sample_dumps (JObject kvs) = ''{'' @ [CHR 0x0A] @ sample_items kvs @ ''}''\<close>
| \<open>sample_dumps v = sample_value v\<close>

definition sample_env :: env where
  "sample_env =
     \<lparr>json_loads = sample_loads,
      json_dumps_indent4 = sample_dumps,
      OPENWEATHER_MAP_API_KEY = ''k'',
      FRESHDESK_DOMAIN = ''example.freshdesk.com'',
      LOGIC_APPS_FULL_URL = Inr \<lparr>url = ''https://logic.example/send'', payload = JNull\<rparr>\<rparr>"

definition fresh_world :: "(nat \<Rightarrow> http_request \<Rightarrow> exn + response) \<Rightarrow> world" where
  "fresh_world h = \<lparr>http = h, clock = 0, invoked = [], submitted = []\<rparr>"

definition answers :: "int \<Rightarrow> string \<Rightarrow> exn + json \<Rightarrow> nat \<Rightarrow> http_request \<Rightarrow> exn + response"
where
  "answers code body js n rq = Inr \<lparr>status_code = code, text_body = body, json_body = js\<rparr>"

definition refuses :: "nat \<Rightarrow> http_request \<Rightarrow> exn + response" where
  "refuses n rq = Inl (Exn RequestException ''Connection refused'')"

definition sample_weather :: json where
  "sample_weather = JObject
     [(''coord'', JObject [(''lon'', JNum ''-0.1257''), (''lat'', JNum ''51.5085'')]),
      (''weather'', JArray [JObject [(''id'', JNum ''804''),
                                      (''description'', JString ''overcast clouds'')]]),
      (''main'', JObject [(''temp'', JNum ''11.3'')]),
      (''name'', JString ''London'')]"

definition ticket_call :: tool_call where
  "ticket_call = \<lparr>call_id = ''c1'', function_name = ''create_freshdesk_ticket'',
                  function_arguments = None\<rparr>"

definition stray :: tool_call where
  "stray = \<lparr>call_id = ''c2'', function_name = ''get_weather'',
            function_arguments = Some ''{}''\<rparr>"

definition garbled :: tool_call where
  "garbled = \<lparr>call_id = ''c3'', function_name = ''create_freshdesk_ticket'',
              function_arguments = Some ''oops''\<rparr>"

definition mail_call :: tool_call where
  \<open>mail_call =
     \<lparr>call_id = ''c4'', function_name = ''send_email'',
      function_arguments =
        Some ''{"email_to": "a@b.c", "email_subject": "Hi", "email_body": "Hello"}''\<rparr>\<close>

definition subject_call :: tool_call where
  \<open>subject_call = \<lparr>call_id = ''c5'', function_name = ''create_freshdesk_ticket'',
                    function_arguments = Some ''{"Subject": "Printer"}''\<rparr>\<close>

definition sample_calls :: "tool_call list" where
  "sample_calls = [ticket_call, stray]"

definition sample_mail :: "tool_call list" where
  "sample_mail = [mail_call]"

definition sample_turns :: "turn list" where
  "sample_turns =
     [\<lparr>user_input = ''first question'', run_status = ''failed'',
       polled = [''in_progress'', ''failed''], reply = Inr ''unused''\<rparr>,
      \<lparr>user_input = ''second question'', run_status = ''completed'',
       polled = [''completed''], reply = Inr ''an answer''\<rparr>]"

section \<open>The handlers\<close>

lemma logic_apps_post_enter:
  "fst (logic_apps_post ev t s b (enter f args w)) = fst (logic_apps_post ev t s b w)"
  by (simp add: logic_apps_post_def requests_send_def enter_def split: sum.splits)

lemma marks_differ: "check_mark @ xs \<noteq> cross_mark @ ys"
  by (simp add: check_mark_def cross_mark_def)

lemma send_email_function_cases:
  "fst (send_email_function ev t s b w) =
     (case fst (logic_apps_post ev t s b w) of
        Inl e \<Rightarrow> cross_mark @ '' Error: '' @ str_exn e
      | Inr rsp \<Rightarrow>
          (if status_code rsp = 200 \<or> status_code rsp = 202
           then check_mark @ '' Email sent!''
           else cross_mark @ '' Failed: '' @ str_int (status_code rsp)))"
proof -
  obtain r w' where
    p: "logic_apps_post ev t s b (enter ''send_email_function'' [t, s, b] w) = (r, w')"
    by (cases "logic_apps_post ev t s b (enter ''send_email_function'' [t, s, b] w)")
  then have "fst (logic_apps_post ev t s b w) = r"
    using logic_apps_post_enter [of ev t s b "''send_email_function''" "[t, s, b]" w]
    by simp
  with p show ?thesis
    by (cases r) (simp_all add: send_email_function_def send_email_try_def)
qed

text \<open>
  Claim C9. \<open>send_email_function\<close> always returns a string: the \<open>try\<close> turns every
  exception into one. The string is the success string exactly when the request got a
  response with status 200 or 202; for a response with another status it is the
  \<open>Failed\<close> string with that status; when the request (or the splitting of the URL before
  it) raised, it is the \<open>Error\<close> string with the message of the exception.
\<close>

theorem send_email_function_string:
  "(fst (send_email_function ev t s b w) = check_mark @ '' Email sent!''
      \<longleftrightarrow> (\<exists>rsp. fst (logic_apps_post ev t s b w) = Inr rsp
                 \<and> (status_code rsp = 200 \<or> status_code rsp = 202)))
   \<and> (\<forall>rsp. fst (logic_apps_post ev t s b w) = Inr rsp
           \<and> status_code rsp \<noteq> 200 \<and> status_code rsp \<noteq> 202
         \<longrightarrow> fst (send_email_function ev t s b w)
               = cross_mark @ '' Failed: '' @ str_int (status_code rsp))
   \<and> (\<forall>e. fst (logic_apps_post ev t s b w) = Inl e
         \<longrightarrow> fst (send_email_function ev t s b w) = cross_mark @ '' Error: '' @ str_exn e)"
proof (cases "fst (logic_apps_post ev t s b w)")
  case (Inl e)
  then show ?thesis
    using marks_differ [of "'' Email sent!''" "'' Error: '' @ str_exn e"]
    by (auto simp: send_email_function_cases)
next
  case (Inr rsp)
  then show ?thesis
    using marks_differ [of "'' Email sent!''" "'' Failed: '' @ str_int (status_code rsp)"]
    by (auto simp: send_email_function_cases)
qed

theorem send_email_function_string_witness:
  "fst (send_email_function sample_env (JString ''a@b.c'') (JString ''Hi'') (JString ''Hello'')
          (fresh_world (answers 202 ''Accepted'' (Inr JNull))))
     = check_mark @ '' Email sent!''
   \<and> fst (send_email_function sample_env (JString ''a@b.c'') (JString ''Hi'') (JString ''Hello'')
          (fresh_world (answers 404 ''Not Found'' (Inr JNull))))
     = cross_mark @ '' Failed: 404''
   \<and> fst (send_email_function sample_env (JString ''a@b.c'') (JString ''Hi'') (JString ''Hello'')
          (fresh_world refuses))
     = cross_mark @ '' Error: Connection refused''"
proof -
  let ?t = "JString ''a@b.c''" and ?s = "JString ''Hi''" and ?b = "JString ''Hello''"
  have a: "fst (logic_apps_post sample_env ?t ?s ?b
                  (fresh_world (answers 202 ''Accepted'' (Inr JNull))))
           = Inr \<lparr>status_code = 202, text_body = ''Accepted'', json_body = Inr JNull\<rparr>"
    by (simp add: logic_apps_post_def sample_env_def requests_send_def fresh_world_def
                  answers_def)
  have b: "fst (logic_apps_post sample_env ?t ?s ?b
                  (fresh_world (answers 404 ''Not Found'' (Inr JNull))))
           = Inr \<lparr>status_code = 404, text_body = ''Not Found'', json_body = Inr JNull\<rparr>"
    by (simp add: logic_apps_post_def sample_env_def requests_send_def fresh_world_def
                  answers_def)
  have c: "fst (logic_apps_post sample_env ?t ?s ?b (fresh_world refuses))
           = Inl (Exn RequestException ''Connection refused'')"
    by (simp add: logic_apps_post_def sample_env_def requests_send_def fresh_world_def
                  refuses_def)
  have n: "str_int 404 = ''404''" by code_simp
  show ?thesis
    using send_email_function_string
            [of sample_env ?t ?s ?b "fresh_world (answers 202 ''Accepted'' (Inr JNull))"]
          send_email_function_string
            [of sample_env ?t ?s ?b "fresh_world (answers 404 ''Not Found'' (Inr JNull))"]
          send_email_function_string [of sample_env ?t ?s ?b "fresh_world refuses"]
          a b c n
    by simp
qed

lemma weather_fields_keys:
  "weather_fields data = Inr d \<Longrightarrow>
     map fst d = [''latitude'', ''longitude'', ''weather_condition'', ''temperature'', ''city'']"
  by (auto simp: weather_fields_def bind_exn_def split: sum.splits)

lemma get_weather_try_keys:
  assumes "fst (get_weather_try ev la lo w) = Inr d"
  shows "(\<exists>rsp. fst (requests_send (weather_request ev la lo) w) = Inr rsp
               \<and> status_code rsp \<noteq> 200) \<and> map fst d = [''error'']
         \<or> (\<exists>rsp. fst (requests_send (weather_request ev la lo) w) = Inr rsp
                  \<and> status_code rsp = 200)
            \<and> map fst d
                = [''latitude'', ''longitude'', ''weather_condition'', ''temperature'', ''city'']"
  using assms
  by (auto simp: get_weather_try_def bind_exn_def dest: weather_fields_keys
           split: sum.splits prod.splits if_splits)

lemma get_weather_cases:
  "fst (get_weather ev la lo w) =
     (case fst (get_weather_try ev la lo w) of
        Inl e \<Rightarrow> [(''error'', JString (str_exn e))]
      | Inr d \<Rightarrow> d)"
  by (simp add: get_weather_def split: prod.splits sum.splits)

text \<open>
  Claim C8. \<open>get_weather\<close> always returns a dict: the \<open>try\<close> turns every exception into
  one. When the request raises, when the body of the response is not JSON, or when
  anything else in the \<open>try\<close> raises, the dict is \<open>{"error": str(e)}\<close>; when an exception
  occurred or the status of the response is not 200, the only key of the dict is
  \<open>error\<close>; otherwise its keys are latitude, longitude, weather_condition, temperature
  and city.
\<close>

theorem get_weather_dict:
  "(\<forall>e. fst (requests_send (weather_request ev la lo) w) = Inl e
        \<longrightarrow> fst (get_weather ev la lo w) = [(''error'', JString (str_exn e))])
   \<and> (\<forall>rsp e. fst (requests_send (weather_request ev la lo) w) = Inr rsp
            \<and> json_body rsp = Inl e
        \<longrightarrow> fst (get_weather ev la lo w) = [(''error'', JString (str_exn e))])
   \<and> (\<forall>e. fst (get_weather_try ev la lo w) = Inl e
        \<longrightarrow> fst (get_weather ev la lo w) = [(''error'', JString (str_exn e))])
   \<and> ((\<exists>e. fst (get_weather_try ev la lo w) = Inl e)
        \<or> (\<exists>rsp. fst (requests_send (weather_request ev la lo) w) = Inr rsp
                 \<and> status_code rsp \<noteq> 200)
       \<longrightarrow> map fst (fst (get_weather ev la lo w)) = [''error''])
   \<and> (\<not> ((\<exists>e. fst (get_weather_try ev la lo w) = Inl e)
           \<or> (\<exists>rsp. fst (requests_send (weather_request ev la lo) w) = Inr rsp
                    \<and> status_code rsp \<noteq> 200))
       \<longrightarrow> map fst (fst (get_weather ev la lo w))
             = [''latitude'', ''longitude'', ''weather_condition'', ''temperature'', ''city''])"
proof (intro conjI allI impI)
  fix e assume "fst (requests_send (weather_request ev la lo) w) = Inl e"
  then show "fst (get_weather ev la lo w) = [(''error'', JString (str_exn e))]"
    by (auto simp: get_weather_cases get_weather_try_def split: prod.splits sum.splits)
next
  fix rsp e
  assume "fst (requests_send (weather_request ev la lo) w) = Inr rsp \<and> json_body rsp = Inl e"
  then show "fst (get_weather ev la lo w) = [(''error'', JString (str_exn e))]"
    by (auto simp: get_weather_cases get_weather_try_def split: prod.splits sum.splits)
next
  fix e assume "fst (get_weather_try ev la lo w) = Inl e"
  then show "fst (get_weather ev la lo w) = [(''error'', JString (str_exn e))]"
    by (simp add: get_weather_cases)
next
  assume a: "(\<exists>e. fst (get_weather_try ev la lo w) = Inl e)
        \<or> (\<exists>rsp. fst (requests_send (weather_request ev la lo) w) = Inr rsp
                 \<and> status_code rsp \<noteq> 200)"
  show "map fst (fst (get_weather ev la lo w)) = [''error'']"
  proof (cases "fst (get_weather_try ev la lo w)")
    case (Inl e)
    then show ?thesis by (simp add: get_weather_cases)
  next
    case (Inr d)
    with a get_weather_try_keys [OF Inr] show ?thesis
      by (auto simp: get_weather_cases)
  qed
next
  assume a: "\<not> ((\<exists>e. fst (get_weather_try ev la lo w) = Inl e)
           \<or> (\<exists>rsp. fst (requests_send (weather_request ev la lo) w) = Inr rsp
                    \<and> status_code rsp \<noteq> 200))"
  then obtain d where d: "fst (get_weather_try ev la lo w) = Inr d"
    by (cases "fst (get_weather_try ev la lo w)") auto
  with a get_weather_try_keys [OF d]
  show "map fst (fst (get_weather ev la lo w))
             = [''latitude'', ''longitude'', ''weather_condition'', ''temperature'', ''city'']"
    by (auto simp: get_weather_cases)
qed

theorem get_weather_dict_witness:
  "fst (get_weather sample_env ''51.5074'' ''-0.1278''
          (fresh_world (answers 200 [] (Inr sample_weather))))
     = [(''latitude'', JNum ''51.5085''), (''longitude'', JNum ''-0.1257''),
        (''weather_condition'', JString ''overcast clouds''),
        (''temperature'', JNum ''11.3''), (''city'', JString ''London'')]
   \<and> fst (get_weather sample_env ''51.5074'' ''-0.1278''
          (fresh_world (answers 401 []
             (Inr (JObject [(''cod'', JNum ''401''),
                            (''message'', JString ''Invalid API key'')])))))
     = [(''error'', JString ''Invalid API key'')]
   \<and> fst (get_weather sample_env ''51.5074'' ''-0.1278''
          (fresh_world (answers 200 [] (Inr (JObject [(''cod'', JNum ''200'')])))))
     = [(''error'', JString (repr_key ''coord''))]
   \<and> fst (get_weather sample_env ''51.5074'' ''-0.1278'' (fresh_world refuses))
     = [(''error'', JString ''Connection refused'')]"
proof -
  have r: "fst (requests_send (weather_request sample_env ''51.5074'' ''-0.1278'')
                  (fresh_world refuses))
           = Inl (Exn RequestException ''Connection refused'')"
    by (simp add: requests_send_def fresh_world_def refuses_def)
  have t: "fst (get_weather_try sample_env ''51.5074'' ''-0.1278''
                  (fresh_world (answers 200 [] (Inr (JObject [(''cod'', JNum ''200'')])))))
           = Inl (Exn KeyError (repr_key ''coord''))"
    by (simp add: get_weather_try_def requests_send_def fresh_world_def answers_def
                  weather_fields_def bind_exn_def)
  have a: "fst (get_weather sample_env ''51.5074'' ''-0.1278''
                  (fresh_world (answers 200 [] (Inr sample_weather))))
           = [(''latitude'', JNum ''51.5085''), (''longitude'', JNum ''-0.1257''),
              (''weather_condition'', JString ''overcast clouds''),
              (''temperature'', JNum ''11.3''), (''city'', JString ''London'')]"
    by (simp add: get_weather_def get_weather_try_def requests_send_def fresh_world_def
                  answers_def weather_fields_def bind_exn_def sample_weather_def)
  have b: "fst (get_weather sample_env ''51.5074'' ''-0.1278''
                  (fresh_world (answers 401 []
                     (Inr (JObject [(''cod'', JNum ''401''),
                                    (''message'', JString ''Invalid API key'')])))))
           = [(''error'', JString ''Invalid API key'')]"
    by (simp add: get_weather_def get_weather_try_def requests_send_def fresh_world_def
                  answers_def bind_exn_def)
  show ?thesis
    using get_weather_dict [of sample_env "''51.5074''" "''-0.1278''" "fresh_world refuses"]
          get_weather_dict [of sample_env "''51.5074''" "''-0.1278''"
            "fresh_world (answers 200 [] (Inr (JObject [(''cod'', JNum ''200'')])))"]
          r t a b
    by simp
qed

section \<open>The polling loops\<close>

text \<open>
  Claim C4. On a run whose status is completed, failed or cancelled, both polling loops
  return at once with that run: nothing is asked of the service, no handler is invoked
  and no outputs are submitted (the world is unchanged).
\<close>

theorem terminal_run_returns:
  "status rn \<in> {''completed'', ''failed'', ''cancelled''} \<Longrightarrow>
     chat_while ev rn service w = (Some (Inr rn), w)
     \<and> poll_while ev rn service w = (Some (Inr rn), w)"
  by (auto simp: active_def)

theorem terminal_run_returns_witness:
  "status \<lparr>status = ''failed'', required_action = None\<rparr>
     \<in> {''completed'', ''failed'', ''cancelled''}
   \<and> chat_while sample_env \<lparr>status = ''failed'', required_action = None\<rparr>
         [Inr \<lparr>status = ''queued'', required_action = None\<rparr>] (fresh_world refuses)
       = (Some (Inr \<lparr>status = ''failed'', required_action = None\<rparr>), fresh_world refuses)
   \<and> poll_while sample_env \<lparr>status = ''failed'', required_action = None\<rparr>
         [Inr \<lparr>status = ''queued'', required_action = None\<rparr>] (fresh_world refuses)
       = (Some (Inr \<lparr>status = ''failed'', required_action = None\<rparr>), fresh_world refuses)"
  using terminal_run_returns
          [of "\<lparr>status = ''failed'', required_action = None\<rparr>" sample_env
              "[Inr \<lparr>status = ''queued'', required_action = None\<rparr>]" "fresh_world refuses"]
  by simp

section \<open>The loops over the tool calls\<close>

text \<open>
  The identifiers of the outputs are fixed by the calls alone: the Freshdesk loop answers
  every call, the email loop those named \<open>send_email\<close>, each in the order of the calls.
\<close>

lemma tool_calls_for_ids:
  "tool_calls_for ev calls acc w = (Inr outs, w') \<Longrightarrow>
     map tool_call_id outs = map tool_call_id acc @ map call_id calls"
proof (induction calls arbitrary: acc w)
  case Nil
  then show ?case by simp
next
  case (Cons tc tcs)
  then show ?case
    by (auto split: sum.splits if_splits prod.splits)
qed

lemma chat_for_ids:
  "chat_for ev calls acc w = (Inr outs, w') \<Longrightarrow>
     map tool_call_id outs =
       map tool_call_id acc @ map call_id (filter (\<lambda>c. function_name c = ''send_email'') calls)"
proof (induction calls arbitrary: acc w)
  case Nil
  then show ?case by simp
next
  case (Cons tc tcs)
  then show ?case
    by (auto split: sum.splits if_splits prod.splits)
qed

text \<open>
  Whether the email loop raises, and with which identifiers it answers, does not depend
  on the outside world: its decoder is a function of the arguments, and its handler
  returns whatever the world does.
\<close>

lemma chat_for_same_outcome:
  "map tool_call_id acc1 = map tool_call_id acc2 \<Longrightarrow>
     map_sum id (map tool_call_id) (fst (chat_for ev calls acc1 w1))
       = map_sum id (map tool_call_id) (fst (chat_for ev calls acc2 w2))"
proof (induction calls arbitrary: acc1 acc2 w1 w2)
  case Nil
  then show ?case by simp
next
  case (Cons c calls)
  show ?case
  proof (cases "function_name c = ''send_email''")
    case False
    then show ?thesis using Cons.IH [OF Cons.prems] by simp
  next
    case True
    let ?decoded = "bind_exn (loads ev (function_arguments c)) (\<lambda>args.
              bind_exn (subscript_key args ''email_to'') (\<lambda>email_to.
              bind_exn (subscript_key args ''email_subject'') (\<lambda>email_subject.
              bind_exn (subscript_key args ''email_body'') (\<lambda>email_body.
              Inr (email_to, email_subject, email_body)))))"
    show ?thesis
    proof (cases ?decoded)
      case (Inl e)
      with True show ?thesis by simp
    next
      case (Inr tsb)
      obtain t s b where tsb: "tsb = (t, s, b)" by (cases tsb)
      let ?o1 = "\<lparr>tool_call_id = call_id c,
                   output_payload = fst (send_email_function ev t s b w1)\<rparr>"
      let ?o2 = "\<lparr>tool_call_id = call_id c,
                   output_payload = fst (send_email_function ev t s b w2)\<rparr>"
      have 1: "chat_for ev (c # calls) acc1 w1 =
                 chat_for ev calls (acc1 @ [?o1]) (snd (send_email_function ev t s b w1))"
        using True Inr tsb by (simp split: prod.splits)
      have 2: "chat_for ev (c # calls) acc2 w2 =
                 chat_for ev calls (acc2 @ [?o2]) (snd (send_email_function ev t s b w2))"
        using True Inr tsb by (simp split: prod.splits)
      have "map tool_call_id (acc1 @ [?o1]) = map tool_call_id (acc2 @ [?o2])"
        using Cons.prems by simp
      from Cons.IH [OF this] 1 2 show ?thesis by simp
    qed
  qed
qed

text \<open>
  Claim C7, as stated, fails: handling the same tool calls twice need not give two
  sequences of outputs. In the Freshdesk loop the same call gets an output when the
  request of the handler is answered, and ends the loop with the exception of the
  request, without outputs, when the connection is refused.
\<close>

theorem resolving_twice_counterexample:
  "fst (tool_calls_for sample_env [ticket_call] []
          (fresh_world (answers 201 [] (Inr (JObject [(''id'', JNum ''7'')])))))
     = Inr [\<lparr>tool_call_id = ''c1'',
             output_payload = sample_dumps (JObject [(''id'', JNum ''7'')])\<rparr>]
   \<and> fst (tool_calls_for sample_env [ticket_call] [] (fresh_world refuses))
     = Inl (Exn RequestException ''Connection refused'')"
  by (simp add: ticket_call_def sample_env_def sample_loads_def arguments_or_def
        bind_exn_def create_freshdesk_ticket_def requests_send_def enter_def
        fresh_world_def answers_def refuses_def)

text \<open>
  Claim C7, amended. Handling the same tool calls twice, in whatever state the outside
  world is each time, gives outputs with the same identifiers in the same order whenever
  both rounds give outputs; the payloads may differ. In the email loop the two rounds
  always agree: either both raise the same exception, or both give outputs, with the
  same identifiers in the same order.
\<close>

theorem resolving_twice_same_ids:
  "(fst (tool_calls_for ev calls [] w1) = Inr outs1
      \<and> fst (tool_calls_for ev calls [] w2) = Inr outs2
     \<longrightarrow> map tool_call_id outs1 = map tool_call_id outs2)
   \<and> (\<forall>e. fst (chat_for ev calls [] w1) = Inl e \<longrightarrow> fst (chat_for ev calls [] w2) = Inl e)
   \<and> (\<forall>outs. fst (chat_for ev calls [] w1) = Inr outs
         \<longrightarrow> (\<exists>outs'. fst (chat_for ev calls [] w2) = Inr outs'
                  \<and> map tool_call_id outs = map tool_call_id outs'))"
proof (intro conjI impI allI)
  assume "fst (tool_calls_for ev calls [] w1) = Inr outs1
      \<and> fst (tool_calls_for ev calls [] w2) = Inr outs2"
  then obtain u1 u2 where "tool_calls_for ev calls [] w1 = (Inr outs1, u1)"
    and "tool_calls_for ev calls [] w2 = (Inr outs2, u2)"
    by (metis prod.collapse)
  then show "map tool_call_id outs1 = map tool_call_id outs2"
    by (simp add: tool_calls_for_ids)
next
  fix e assume "fst (chat_for ev calls [] w1) = Inl e"
  with chat_for_same_outcome [of "[]" "[]" ev calls w1 w2]
  show "fst (chat_for ev calls [] w2) = Inl e"
    by (cases "fst (chat_for ev calls [] w2)") simp_all
next
  fix outs assume "fst (chat_for ev calls [] w1) = Inr outs"
  with chat_for_same_outcome [of "[]" "[]" ev calls w1 w2]
  show "\<exists>outs'. fst (chat_for ev calls [] w2) = Inr outs'
                  \<and> map tool_call_id outs = map tool_call_id outs'"
    by (cases "fst (chat_for ev calls [] w2)") simp_all
qed

theorem resolving_twice_same_ids_witness:
  "fst (tool_calls_for sample_env sample_calls []
          (fresh_world (answers 201 [] (Inr (JObject [(''id'', JNum ''7'')])))))
     = Inr [\<lparr>tool_call_id = ''c1'',
             output_payload = sample_dumps (JObject [(''id'', JNum ''7'')])\<rparr>,
            \<lparr>tool_call_id = ''c2'',
             output_payload =
               sample_dumps (JObject [(''error'', JString ''Unknown tool get_weather'')])\<rparr>]
   \<and> map tool_call_id
         (projr (fst (tool_calls_for sample_env sample_calls []
            (fresh_world (answers 429 ''Too many'' (Inl (Exn JSONDecodeError [])))))))
       = [''c1'', ''c2'']
   \<and> fst (chat_for sample_env sample_mail [] (fresh_world refuses))
     = Inr [\<lparr>tool_call_id = ''c4'',
             output_payload = cross_mark @ '' Error: Connection refused''\<rparr>]
   \<and> (\<exists>outs'. fst (chat_for sample_env sample_mail []
                      (fresh_world (answers 202 ''Accepted'' (Inr JNull)))) = Inr outs'
         \<and> map tool_call_id outs' = [''c4''])
   \<and> fst (chat_for sample_env [garbled\<lparr>function_name := ''send_email''\<rparr>] []
            (fresh_world refuses))
     = Inl (Exn JSONDecodeError ''Expecting value: line 1 column 1 (char 0)'')
   \<and> fst (chat_for sample_env [garbled\<lparr>function_name := ''send_email''\<rparr>] []
            (fresh_world (answers 202 ''Accepted'' (Inr JNull))))
     = Inl (Exn JSONDecodeError ''Expecting value: line 1 column 1 (char 0)'')"
proof -
  let ?made = "fresh_world (answers 201 [] (Inr (JObject [(''id'', JNum ''7'')])))"
  let ?busy = "fresh_world (answers 429 ''Too many'' (Inl (Exn JSONDecodeError [])))"
  let ?sent = "fresh_world (answers 202 ''Accepted'' (Inr JNull))"
  let ?mis = "garbled\<lparr>function_name := ''send_email''\<rparr>"
  let ?d = "Exn JSONDecodeError ''Expecting value: line 1 column 1 (char 0)''"
  let ?outs1 = "[\<lparr>tool_call_id = ''c1'',
             output_payload = sample_dumps (JObject [(''id'', JNum ''7'')])\<rparr>,
            \<lparr>tool_call_id = ''c2'',
             output_payload =
               sample_dumps (JObject [(''error'', JString ''Unknown tool get_weather'')])\<rparr>]"
  let ?outs2 = "[\<lparr>tool_call_id = ''c1'',
             output_payload =
               sample_dumps (JObject [(''status_code'', JNum (str_int 429)),
                                      (''error'', JString ''Too many'')])\<rparr>,
            \<lparr>tool_call_id = ''c2'',
             output_payload =
               sample_dumps (JObject [(''error'', JString ''Unknown tool get_weather'')])\<rparr>]"
  let ?mail = "[\<lparr>tool_call_id = ''c4'',
             output_payload = cross_mark @ '' Error: Connection refused''\<rparr>]"
  have a: "fst (tool_calls_for sample_env sample_calls [] ?made) = Inr ?outs1"
    by (simp add: sample_calls_def ticket_call_def stray_def sample_env_def sample_loads_def
          arguments_or_def bind_exn_def create_freshdesk_ticket_def requests_send_def
          enter_def fresh_world_def answers_def)
  have b: "fst (tool_calls_for sample_env sample_calls [] ?busy) = Inr ?outs2"
    by (simp add: sample_calls_def ticket_call_def stray_def sample_env_def sample_loads_def
          arguments_or_def bind_exn_def create_freshdesk_ticket_def requests_send_def
          enter_def fresh_world_def answers_def)
  have "map tool_call_id ?outs1 = map tool_call_id ?outs2"
    using a b resolving_twice_same_ids [of sample_env sample_calls ?made ?outs1 ?busy ?outs2]
    by blast
  with b have two: "map tool_call_id
         (projr (fst (tool_calls_for sample_env sample_calls [] ?busy))) = [''c1'', ''c2'']"
    by simp
  have c: "fst (chat_for sample_env sample_mail [] (fresh_world refuses)) = Inr ?mail"
    by (simp add: sample_mail_def mail_call_def sample_env_def sample_loads_def loads_def
          bind_exn_def send_email_function_def send_email_try_def logic_apps_post_def
          requests_send_def enter_def fresh_world_def refuses_def)
  then have "\<exists>outs'. fst (chat_for sample_env sample_mail [] ?sent) = Inr outs'
                \<and> map tool_call_id ?mail = map tool_call_id outs'"
    using resolving_twice_same_ids [of sample_env sample_mail "fresh_world refuses" _ ?sent]
    by blast
  then have four: "\<exists>outs'. fst (chat_for sample_env sample_mail [] ?sent) = Inr outs'
                \<and> map tool_call_id outs' = [''c4'']"
    by auto
  have e: "fst (chat_for sample_env [?mis] [] (fresh_world refuses)) = Inl ?d"
    by (simp add: garbled_def sample_env_def sample_loads_def loads_def bind_exn_def)
  then have six: "fst (chat_for sample_env [?mis] [] ?sent) = Inl ?d"
    using resolving_twice_same_ids [of sample_env "[?mis]" "fresh_world refuses" _ ?sent]
    by blast
  from a two c four e six show ?thesis by blast
qed

lemma create_freshdesk_ticket_invoked:
  "invoked (snd (create_freshdesk_ticket ev E S w))
     = invoked w @ [(''create_freshdesk_ticket'', [E, S])]"
  by (simp add: create_freshdesk_ticket_def requests_send_def enter_def
           split: sum.splits prod.splits)

text \<open>
  Claim C10. In the Freshdesk loop, the arguments of a call to \<open>create_freshdesk_ticket\<close>
  that are absent or the empty string are decoded from the text \<open>{}\<close>, the empty object;
  and when the decoded arguments are an object, \<open>create_freshdesk_ticket\<close> is invoked with
  the values of \<open>Email\<close> and \<open>Subject\<close>, the empty string standing in for each key that is
  missing.
\<close>

theorem missing_arguments_default:
  assumes "function_name tc = ''create_freshdesk_ticket''"
  shows "((function_arguments tc = None \<or> function_arguments tc = Some [])
            \<and> json_loads ev ''{}'' = Inr (JObject [])
          \<longrightarrow> json_loads ev (arguments_or (function_arguments tc)) = Inr (JObject []))
    \<and> (json_loads ev (arguments_or (function_arguments tc)) = Inr (JObject kvs)
          \<longrightarrow> (\<exists>E S. invoked (snd (tool_calls_for ev [tc] [] w))
                        = invoked w @ [(''create_freshdesk_ticket'', [E, S])]
                   \<and> (''Email'' \<notin> fst ` set kvs \<longrightarrow> E = JString [])
                   \<and> (''Subject'' \<notin> fst ` set kvs \<longrightarrow> S = JString [])
                   \<and> (\<forall>v. map_of kvs ''Email'' = Some v \<longrightarrow> E = v)
                   \<and> (\<forall>v. map_of kvs ''Subject'' = Some v \<longrightarrow> S = v)))"
proof (intro conjI impI)
  assume "(function_arguments tc = None \<or> function_arguments tc = Some [])
            \<and> json_loads ev ''{}'' = Inr (JObject [])"
  then show "json_loads ev (arguments_or (function_arguments tc)) = Inr (JObject [])"
    by (auto simp: arguments_or_def)
next
  assume d: "json_loads ev (arguments_or (function_arguments tc)) = Inr (JObject kvs)"
  define E where "E = (case map_of kvs ''Email'' of None \<Rightarrow> JString [] | Some v \<Rightarrow> v)"
  define S where "S = (case map_of kvs ''Subject'' of None \<Rightarrow> JString [] | Some v \<Rightarrow> v)"
  have "tool_calls_for ev [tc] [] w =
          (case create_freshdesk_ticket ev E S w of
             (Inl e, w') \<Rightarrow> (Inl e, w')
           | (Inr result, w') \<Rightarrow>
               (Inr [\<lparr>tool_call_id = call_id tc, output_payload = result\<rparr>], w'))"
    using assms d
    by (auto simp: bind_exn_def E_def S_def split: option.splits prod.splits sum.splits)
  then have "snd (tool_calls_for ev [tc] [] w) = snd (create_freshdesk_ticket ev E S w)"
    by (simp split: prod.splits sum.splits)
  then have "invoked (snd (tool_calls_for ev [tc] [] w))
               = invoked w @ [(''create_freshdesk_ticket'', [E, S])]"
    by (simp add: create_freshdesk_ticket_invoked)
  moreover have "''Email'' \<notin> fst ` set kvs \<longrightarrow> E = JString []"
    by (auto simp: E_def split: option.splits dest: map_of_SomeD intro: rev_image_eqI)
  moreover have "''Subject'' \<notin> fst ` set kvs \<longrightarrow> S = JString []"
    by (auto simp: S_def split: option.splits dest: map_of_SomeD intro: rev_image_eqI)
  moreover have "\<forall>v. map_of kvs ''Email'' = Some v \<longrightarrow> E = v" by (simp add: E_def)
  moreover have "\<forall>v. map_of kvs ''Subject'' = Some v \<longrightarrow> S = v" by (simp add: S_def)
  ultimately show "\<exists>E S. invoked (snd (tool_calls_for ev [tc] [] w))
                        = invoked w @ [(''create_freshdesk_ticket'', [E, S])]
                   \<and> (''Email'' \<notin> fst ` set kvs \<longrightarrow> E = JString [])
                   \<and> (''Subject'' \<notin> fst ` set kvs \<longrightarrow> S = JString [])
                   \<and> (\<forall>v. map_of kvs ''Email'' = Some v \<longrightarrow> E = v)
                   \<and> (\<forall>v. map_of kvs ''Subject'' = Some v \<longrightarrow> S = v)"
    by blast
qed

theorem missing_arguments_default_witness:
  "json_loads sample_env (arguments_or (function_arguments ticket_call)) = Inr (JObject [])
   \<and> invoked (snd (tool_calls_for sample_env [ticket_call] [] (fresh_world refuses)))
     = [(''create_freshdesk_ticket'', [JString [], JString []])]
   \<and> invoked (snd (tool_calls_for sample_env [subject_call] [] (fresh_world refuses)))
     = [(''create_freshdesk_ticket'', [JString [], JString ''Printer''])]"
proof -
  have n: "function_name ticket_call = ''create_freshdesk_ticket''"
          "function_arguments ticket_call = None"
    by (simp_all add: ticket_call_def)
  have l: "json_loads sample_env ''{}'' = Inr (JObject [])"
    by (simp add: sample_env_def sample_loads_def)
  have i: "invoked (fresh_world refuses) = []" by (simp add: fresh_world_def)
  have m: "function_name subject_call = ''create_freshdesk_ticket''"
          "json_loads sample_env (arguments_or (function_arguments subject_call))
             = Inr (JObject [(''Subject'', JString ''Printer'')])"
    by (simp_all add: subject_call_def sample_env_def sample_loads_def arguments_or_def)
  from missing_arguments_default [OF n(1), of sample_env "[]" "fresh_world refuses"] n(2) l i
  have a: "json_loads sample_env (arguments_or (function_arguments ticket_call))
             = Inr (JObject [])
           \<and> invoked (snd (tool_calls_for sample_env [ticket_call] [] (fresh_world refuses)))
             = [(''create_freshdesk_ticket'', [JString [], JString []])]"
    by auto
  from missing_arguments_default
         [OF m(1), of sample_env "[(''Subject'', JString ''Printer'')]" "fresh_world refuses"]
       m(2) i
  have b: "invoked (snd (tool_calls_for sample_env [subject_call] [] (fresh_world refuses)))
             = [(''create_freshdesk_ticket'', [JString [], JString ''Printer''])]"
    by auto
  from a b show ?thesis by blast
qed

section \<open>A failed run in the chat loops\<close>

text \<open>
  Claim C6. After a run that failed, the chat loop of the Azure AI Search script prints
  the failure and is left: no later input is read. The loops of the file search script
  and of the code interpreter script print the failure and go on with the next input.
\<close>

theorem failed_run_policies:
  "run_status t = ''failed'' \<Longrightarrow>
   strip (lower (user_input t)) \<noteq> ''end'' \<Longrightarrow>
   lower (strip (user_input t)) \<notin> {''exit'', ''quit'', ''end''} \<Longrightarrow>
   dropWhile (\<lambda>s. s \<notin> set [''completed'', ''failed'', ''cancelled'']) (polled t)
     = ''failed'' # rest \<Longrightarrow>
     azureai_search_chat (t # ts) = ([Sent (user_input t), RunFailed ''failed''], Left)
     \<and> filesearch_chat (t # ts)
         = (Sent (strip (user_input t)) # RunFailed ''failed'' # fst (filesearch_chat ts),
            snd (filesearch_chat ts))
     \<and> code_interpreter_chat csv (t # ts)
         = (Sent (strip (user_input t) @ [CHR 0x0A, CHR 0x0A] @ ''CSV Data:''
                    @ [CHR 0x0A] @ csv)
              # RunFailed ''failed'' # fst (code_interpreter_chat csv ts),
            snd (code_interpreter_chat csv ts))"
  by (simp add: split_beta)

theorem failed_run_policies_witness:
  "azureai_search_chat sample_turns
     = ([Sent ''first question'', RunFailed ''failed''], Left)
   \<and> filesearch_chat sample_turns
     = ([Sent ''first question'', RunFailed ''failed'',
         Sent ''second question'', Reply ''an answer''], Raised eof)
   \<and> code_interpreter_chat ''a,b'' sample_turns
     = ([Sent (''first question'' @ [CHR 0x0A, CHR 0x0A] @ ''CSV Data:'' @ [CHR 0x0A] @ ''a,b''),
         RunFailed ''failed'',
         Sent (''second question'' @ [CHR 0x0A, CHR 0x0A] @ ''CSV Data:'' @ [CHR 0x0A]
                 @ ''a,b''),
         Reply ''an answer''], Raised eof)"
proof -
  have s: "strip ''first question'' = ''first question''"
          "lower ''first question'' = ''first question''"
          "strip ''second question'' = ''second question''"
          "lower ''second question'' = ''second question''"
    by (simp_all add: strip_def lower_def is_space_def)
  have t: "filesearch_chat (tl sample_turns)
             = ([Sent ''second question'', Reply ''an answer''], Raised eof)"
          "code_interpreter_chat ''a,b'' (tl sample_turns)
             = ([Sent (''second question'' @ [CHR 0x0A, CHR 0x0A] @ ''CSV Data:''
                         @ [CHR 0x0A] @ ''a,b''),
                 Reply ''an answer''], Raised eof)"
    by (simp_all add: sample_turns_def s)
  show ?thesis
    using failed_run_policies
            [of "hd sample_turns" "[]" "tl sample_turns" "''a,b''"] s t
    by (simp add: sample_turns_def)
qed

section \<open>One output for every call\<close>

lemma requests_send_enter:
  "fst (requests_send rq (enter f args w)) = fst (requests_send rq w)"
  by (simp add: requests_send_def enter_def)

lemma create_freshdesk_ticket_cases:
  "fst (create_freshdesk_ticket ev E S w) =
     (case fst (requests_send (ticket_request ev E S) w) of
        Inl e \<Rightarrow> Inl e
      | Inr rsp \<Rightarrow>
          (if status_code rsp = 201 then
             (case json_body rsp of
                Inl e \<Rightarrow> Inl e
              | Inr body \<Rightarrow> Inr (json_dumps_indent4 ev body))
           else
             Inr (json_dumps_indent4 ev
                    (JObject [(''status_code'', JNum (str_int (status_code rsp))),
                              (''error'', JString (text_body rsp))]))))"
  by (simp add: create_freshdesk_ticket_def requests_send_def enter_def
           split: sum.splits)

lemma create_freshdesk_ticket_http:
  "http (snd (create_freshdesk_ticket ev E S w)) = http w"
  by (simp add: create_freshdesk_ticket_def requests_send_def enter_def
           split: sum.splits)

lemma send_email_function_http:
  "http (snd (send_email_function ev t s b w)) = http w"
  by (simp add: send_email_function_def send_email_try_def logic_apps_post_def
                requests_send_def enter_def
           split: sum.splits)

lemma dict_get_object: "\<exists>v. dict_get (JObject kvs) k d = Inr v"
  by (simp split: option.splits)

text \<open>One round of each loop, case by case.\<close>

lemma tool_calls_for_raise_decode:
  "json_loads ev (arguments_or (function_arguments tc)) = Inl e \<Longrightarrow>
     tool_calls_for ev (tc # tcs) outs w = (Inl e, w)"
  by simp

lemma tool_calls_for_unknown:
  "function_name tc \<noteq> ''create_freshdesk_ticket'' \<Longrightarrow>
   json_loads ev (arguments_or (function_arguments tc)) = Inr args \<Longrightarrow>
     tool_calls_for ev (tc # tcs) outs w =
       tool_calls_for ev tcs
         (outs @ [\<lparr>tool_call_id = call_id tc,
                   output_payload = json_dumps_indent4 ev
                     (JObject [(''error'',
                                JString (''Unknown tool '' @ function_name tc))])\<rparr>]) w"
  by simp

lemma tool_calls_for_ticket:
  assumes "function_name tc = ''create_freshdesk_ticket''"
    and "json_loads ev (arguments_or (function_arguments tc)) = Inr args"
    and "dict_get args ''Email'' (JString []) = Inr E"
    and "dict_get args ''Subject'' (JString []) = Inr S"
  shows "tool_calls_for ev (tc # tcs) outs w =
     (case fst (create_freshdesk_ticket ev E S w) of
        Inl e \<Rightarrow> (Inl e, snd (create_freshdesk_ticket ev E S w))
      | Inr result \<Rightarrow>
          tool_calls_for ev tcs
            (outs @ [\<lparr>tool_call_id = call_id tc, output_payload = result\<rparr>])
            (snd (create_freshdesk_ticket ev E S w)))"
  using assms by (simp add: bind_exn_def split: prod.splits sum.splits)

lemma chat_for_other:
  "function_name c \<noteq> ''send_email'' \<Longrightarrow>
     chat_for ev (c # calls) outs w = chat_for ev calls outs w"
  by simp

lemma chat_for_raise_decode:
  "function_name c = ''send_email'' \<Longrightarrow> loads ev (function_arguments c) = Inl e \<Longrightarrow>
     chat_for ev (c # calls) outs w = (Inl e, w)"
  by (simp add: bind_exn_def)

lemma chat_for_send:
  assumes "function_name c = ''send_email''"
    and "loads ev (function_arguments c) = Inr args"
    and "subscript_key args ''email_to'' = Inr t"
    and "subscript_key args ''email_subject'' = Inr s"
    and "subscript_key args ''email_body'' = Inr b"
  shows "chat_for ev (c # calls) outs w =
     chat_for ev calls
       (outs @ [\<lparr>tool_call_id = call_id c,
                 output_payload = fst (send_email_function ev t s b w)\<rparr>])
       (snd (send_email_function ev t s b w))"
  using assms by (simp add: bind_exn_def split: prod.splits)

lemma tool_calls_for_returns:
  assumes "\<forall>tc \<in> set calls. \<exists>args.
             json_loads ev (arguments_or (function_arguments tc)) = Inr args
             \<and> (function_name tc = ''create_freshdesk_ticket'' \<longrightarrow> (\<exists>kvs. args = JObject kvs))"
    and "\<forall>n rq. \<exists>rsp. http w n rq = Inr rsp
             \<and> (status_code rsp = 201 \<longrightarrow> (\<exists>body. json_body rsp = Inr body))"
  shows "\<exists>outs. fst (tool_calls_for ev calls acc w) = Inr outs"
  using assms
proof (induction calls arbitrary: acc w)
  case Nil
  then show ?case by simp
next
  case (Cons tc tcs)
  from Cons.prems(1) obtain args where
    args: "json_loads ev (arguments_or (function_arguments tc)) = Inr args"
    and obj: "function_name tc = ''create_freshdesk_ticket'' \<longrightarrow> (\<exists>kvs. args = JObject kvs)"
    by auto
  from Cons.prems(1) have rest: "\<forall>tc \<in> set tcs. \<exists>args.
             json_loads ev (arguments_or (function_arguments tc)) = Inr args
             \<and> (function_name tc = ''create_freshdesk_ticket'' \<longrightarrow> (\<exists>kvs. args = JObject kvs))"
    by simp
  show ?case
  proof (cases "function_name tc = ''create_freshdesk_ticket''")
    case False
    from False args have "tool_calls_for ev (tc # tcs) acc w =
       tool_calls_for ev tcs
         (acc @ [\<lparr>tool_call_id = call_id tc,
                   output_payload = json_dumps_indent4 ev
                     (JObject [(''error'',
                                JString (''Unknown tool '' @ function_name tc))])\<rparr>]) w"
      by (rule tool_calls_for_unknown)
    with Cons.IH [OF rest Cons.prems(2)] show ?thesis by simp
  next
    case True
    with obj obtain kvs where kvs: "args = JObject kvs" by auto
    obtain E where E: "dict_get args ''Email'' (JString []) = Inr E"
      unfolding kvs using dict_get_object by blast
    obtain S where S: "dict_get args ''Subject'' (JString []) = Inr S"
      unfolding kvs using dict_get_object by blast
    let ?w = "snd (create_freshdesk_ticket ev E S w)"
    from Cons.prems(2) have "\<exists>rsp. http w (clock w) (ticket_request ev E S) = Inr rsp
             \<and> (status_code rsp = 201 \<longrightarrow> (\<exists>body. json_body rsp = Inr body))"
      by blast
    then obtain rsp where
      rsp: "fst (requests_send (ticket_request ev E S) w) = Inr rsp"
      and js: "status_code rsp = 201 \<longrightarrow> (\<exists>body. json_body rsp = Inr body)"
      by (auto simp: requests_send_def)
    have "\<exists>result. fst (create_freshdesk_ticket ev E S w) = Inr result"
    proof (cases "status_code rsp = 201")
      case created: True
      with js obtain body where "json_body rsp = Inr body" by blast
      with created rsp show ?thesis by (simp add: create_freshdesk_ticket_cases)
    next
      case other: False
      with rsp show ?thesis by (simp add: create_freshdesk_ticket_cases)
    qed
    then obtain result where r: "fst (create_freshdesk_ticket ev E S w) = Inr result" ..
    have h: "\<forall>n rq. \<exists>rsp. http ?w n rq = Inr rsp
             \<and> (status_code rsp = 201 \<longrightarrow> (\<exists>body. json_body rsp = Inr body))"
      using Cons.prems(2) by (simp add: create_freshdesk_ticket_http)
    from tool_calls_for_ticket [OF True args E S, of tcs acc w] r
    have "tool_calls_for ev (tc # tcs) acc w =
            tool_calls_for ev tcs
              (acc @ [\<lparr>tool_call_id = call_id tc, output_payload = result\<rparr>]) ?w"
      by simp
    with Cons.IH [OF rest h] show ?thesis by simp
  qed
qed

lemma chat_for_returns:
  assumes "\<forall>c \<in> set calls. function_name c = ''send_email''
             \<and> (\<exists>kvs. loads ev (function_arguments c) = Inr (JObject kvs)
                  \<and> {''email_to'', ''email_subject'', ''email_body''} \<subseteq> fst ` set kvs)"
  shows "\<exists>outs. fst (chat_for ev calls acc w) = Inr outs"
  using assms
proof (induction calls arbitrary: acc w)
  case Nil
  then show ?case by simp
next
  case (Cons c calls)
  from Cons.prems obtain kvs where
    name: "function_name c = ''send_email''"
    and args: "loads ev (function_arguments c) = Inr (JObject kvs)"
    and keys: "{''email_to'', ''email_subject'', ''email_body''} \<subseteq> fst ` set kvs"
    by auto
  have k: "\<And>k. k \<in> fst ` set kvs \<Longrightarrow> \<exists>v. subscript_key (JObject kvs) k = Inr v"
    by (auto simp: map_of_eq_None_iff split: option.splits)
  from keys have "''email_to'' \<in> fst ` set kvs" by simp
  from k [OF this] obtain t where t: "subscript_key (JObject kvs) ''email_to'' = Inr t" ..
  from keys have "''email_subject'' \<in> fst ` set kvs" by simp
  from k [OF this] obtain s where s: "subscript_key (JObject kvs) ''email_subject'' = Inr s" ..
  from keys have "''email_body'' \<in> fst ` set kvs" by simp
  from k [OF this] obtain b where b: "subscript_key (JObject kvs) ''email_body'' = Inr b" ..
  from Cons.prems have rest: "\<forall>c \<in> set calls. function_name c = ''send_email''
             \<and> (\<exists>kvs. loads ev (function_arguments c) = Inr (JObject kvs)
                  \<and> {''email_to'', ''email_subject'', ''email_body''} \<subseteq> fst ` set kvs)"
    by simp
  from Cons.IH [OF rest] chat_for_send [OF name args t s b, of calls acc w]
  show ?case by simp
qed

lemma one_output_each_ids:
  "map tool_call_id outs = map call_id calls \<Longrightarrow> one_output_each calls (Inr outs)"
proof -
  assume m: "map tool_call_id outs = map call_id calls"
  then have "length outs = length calls" by (rule map_eq_imp_length_eq)
  with m show ?thesis by (simp add: one_output_each_def)
qed

text \<open>
  Claim C1, as stated, fails: neither loop catches an exception, so a call whose
  arguments are not JSON ends the Freshdesk loop with the exception of the decoder and
  without any output.
\<close>

theorem one_output_each_counterexample:
  "fst (tool_calls_for sample_env [garbled] []
          (fresh_world (answers 201 [] (Inr (JObject [(''id'', JNum ''7'')])))))
     = Inl (Exn JSONDecodeError ''Expecting value: line 1 column 1 (char 0)'')
   \<and> \<not> one_output_each [garbled]
         (fst (tool_calls_for sample_env [garbled] []
                 (fresh_world (answers 201 [] (Inr (JObject [(''id'', JNum ''7'')]))))))"
  by (simp add: garbled_def sample_env_def sample_loads_def arguments_or_def
                one_output_each_def)

text \<open>
  Claim C1, amended. When nothing raises, every call gets exactly one output and the
  identifiers of the outputs are those of the calls. In the Freshdesk loop that is so
  when the arguments of every call decode (to an object for a call of
  \<open>create_freshdesk_ticket\<close>) and every request of the handler gets a response, with a
  JSON body when its status is 201. In the email loop that is so for calls of
  \<open>send_email\<close> whose arguments decode to an object with the three keys of the email.
\<close>

theorem one_output_each_when_nothing_raises:
  "((\<forall>tc \<in> set calls. \<exists>args.
        json_loads ev (arguments_or (function_arguments tc)) = Inr args
        \<and> (function_name tc = ''create_freshdesk_ticket'' \<longrightarrow> (\<exists>kvs. args = JObject kvs)))
     \<and> (\<forall>n rq. \<exists>rsp. http w n rq = Inr rsp
            \<and> (status_code rsp = 201 \<longrightarrow> (\<exists>body. json_body rsp = Inr body)))
    \<longrightarrow> one_output_each calls (fst (tool_calls_for ev calls [] w)))
   \<and> ((\<forall>c \<in> set calls. function_name c = ''send_email''
          \<and> (\<exists>kvs. loads ev (function_arguments c) = Inr (JObject kvs)
                \<and> {''email_to'', ''email_subject'', ''email_body''} \<subseteq> fst ` set kvs))
    \<longrightarrow> one_output_each calls (fst (chat_for ev calls [] w)))"
proof (intro conjI impI)
  assume "(\<forall>tc \<in> set calls. \<exists>args.
        json_loads ev (arguments_or (function_arguments tc)) = Inr args
        \<and> (function_name tc = ''create_freshdesk_ticket'' \<longrightarrow> (\<exists>kvs. args = JObject kvs)))
     \<and> (\<forall>n rq. \<exists>rsp. http w n rq = Inr rsp
            \<and> (status_code rsp = 201 \<longrightarrow> (\<exists>body. json_body rsp = Inr body)))"
  then obtain outs where outs: "fst (tool_calls_for ev calls [] w) = Inr outs"
    using tool_calls_for_returns [of calls ev w "[]"] by blast
  then have "tool_calls_for ev calls [] w = (Inr outs, snd (tool_calls_for ev calls [] w))"
    by (metis prod.collapse)
  then have "map tool_call_id outs = map call_id calls"
    by (simp add: tool_calls_for_ids)
  with outs show "one_output_each calls (fst (tool_calls_for ev calls [] w))"
    by (simp add: one_output_each_ids)
next
  assume a: "\<forall>c \<in> set calls. function_name c = ''send_email''
          \<and> (\<exists>kvs. loads ev (function_arguments c) = Inr (JObject kvs)
                \<and> {''email_to'', ''email_subject'', ''email_body''} \<subseteq> fst ` set kvs)"
  then obtain outs where outs: "fst (chat_for ev calls [] w) = Inr outs"
    using chat_for_returns [of calls ev "[]" w] by blast
  then have "chat_for ev calls [] w = (Inr outs, snd (chat_for ev calls [] w))"
    by (metis prod.collapse)
  then have "map tool_call_id outs
               = map call_id (filter (\<lambda>c. function_name c = ''send_email'') calls)"
    by (simp add: chat_for_ids)
  moreover from a have "filter (\<lambda>c. function_name c = ''send_email'') calls = calls"
    by (simp add: filter_id_conv)
  ultimately show "one_output_each calls (fst (chat_for ev calls [] w))"
    using outs by (simp add: one_output_each_ids)
qed

theorem one_output_each_when_nothing_raises_witness:
  "one_output_each sample_calls
     (fst (tool_calls_for sample_env sample_calls []
             (fresh_world (answers 201 [] (Inr (JObject [(''id'', JNum ''7'')]))))))
   \<and> one_output_each sample_mail
       (fst (chat_for sample_env sample_mail [] (fresh_world refuses)))"
proof -
  have a: "\<forall>tc \<in> set sample_calls. \<exists>args.
        json_loads sample_env (arguments_or (function_arguments tc)) = Inr args
        \<and> (function_name tc = ''create_freshdesk_ticket'' \<longrightarrow> (\<exists>kvs. args = JObject kvs))"
    by (simp add: sample_calls_def ticket_call_def stray_def sample_env_def sample_loads_def arguments_or_def)
  have b: "\<forall>n rq. \<exists>rsp.
         http (fresh_world (answers 201 [] (Inr (JObject [(''id'', JNum ''7'')])))) n rq = Inr rsp
            \<and> (status_code rsp = 201 \<longrightarrow> (\<exists>body. json_body rsp = Inr body))"
    by (simp add: fresh_world_def answers_def)
  have c: "\<forall>c \<in> set sample_mail. function_name c = ''send_email''
          \<and> (\<exists>kvs. loads sample_env (function_arguments c) = Inr (JObject kvs)
                \<and> {''email_to'', ''email_subject'', ''email_body''} \<subseteq> fst ` set kvs)"
    by (simp add: sample_mail_def mail_call_def sample_env_def sample_loads_def loads_def)
  from a b c
    one_output_each_when_nothing_raises
      [of sample_calls sample_env
          "fresh_world (answers 201 [] (Inr (JObject [(''id'', JNum ''7'')])))"]
    one_output_each_when_nothing_raises [of sample_mail sample_env "fresh_world refuses"]
  show ?thesis by blast
qed

section \<open>Failures of a handler and of the decoder\<close>

lemma poll_while_raise:
  assumes "status rn \<in> set active" and "status rn' = ''requires_action''"
    and "required_action rn' = Some tcs" and "fst (tool_calls_for ev tcs [] w) = Inl e"
  shows "fst (poll_while ev rn (Inr rn' # service) w) = Some (Inl e)"
  using assms by (cases "tool_calls_for ev tcs [] w") auto

lemma chat_while_raise:
  assumes "status rn = ''requires_action''"
    and "required_action rn = Some calls" and "fst (chat_for ev calls [] w) = Inl e"
  shows "fst (chat_while ev rn service w) = Some (Inl e)"
  using assms by (cases "chat_for ev calls [] w") (auto simp: active_def)

text \<open>
  Claim C3, as stated, fails: no loop has a \<open>try\<close>. An exception of the request inside
  \<open>create_freshdesk_ticket\<close> leaves the \<open>for\<close> loop and the polling loop of the Freshdesk
  script, and arguments that are not JSON make \<open>chat\<close> raise.
\<close>

theorem failures_in_the_loops_counterexample:
  "fst (poll_while sample_env \<lparr>status = ''queued'', required_action = None\<rparr>
          [Inr \<lparr>status = ''requires_action'', required_action = Some sample_calls\<rparr>]
          (fresh_world refuses))
     = Some (Inl (Exn RequestException ''Connection refused''))
   \<and> fst (chat_while sample_env
            \<lparr>status = ''requires_action'',
             required_action = Some [garbled\<lparr>function_name := ''send_email''\<rparr>]\<rparr>
            [] (fresh_world refuses))
     = Some (Inl (Exn JSONDecodeError ''Expecting value: line 1 column 1 (char 0)''))"
  by (simp add: active_def sample_calls_def ticket_call_def stray_def garbled_def
        sample_env_def sample_loads_def
        arguments_or_def loads_def bind_exn_def create_freshdesk_ticket_def
        requests_send_def enter_def fresh_world_def refuses_def)

text \<open>
  Claim C3, amended. What is turned into an output is what the handlers themselves turn
  into a result: \<open>send_email_function\<close> catches the exception of its request and returns
  the \<open>Error\<close> string, which becomes the output of the call, and
  \<open>create_freshdesk_ticket\<close> returns an object with \<open>status_code\<close> and \<open>error\<close> for a
  response whose status is not 201. The loops catch nothing: an exception of the request
  of \<open>create_freshdesk_ticket\<close>, and an exception of the decoder in either loop, end the
  \<open>for\<close> loop and leave the polling loop around it.
\<close>

theorem failures_in_the_loops:
  "(function_name c = ''send_email'' \<and> loads ev (function_arguments c) = Inr args
      \<and> subscript_key args ''email_to'' = Inr t
      \<and> subscript_key args ''email_subject'' = Inr s
      \<and> subscript_key args ''email_body'' = Inr b
      \<and> fst (logic_apps_post ev t s b w) = Inl e
    \<longrightarrow> chat_for ev (c # calls) outs w =
          chat_for ev calls
            (outs @ [\<lparr>tool_call_id = call_id c,
                      output_payload = cross_mark @ '' Error: '' @ str_exn e\<rparr>])
            (snd (send_email_function ev t s b w)))
   \<and> (function_name tc = ''create_freshdesk_ticket''
      \<and> json_loads ev (arguments_or (function_arguments tc)) = Inr fargs
      \<and> dict_get fargs ''Email'' (JString []) = Inr E
      \<and> dict_get fargs ''Subject'' (JString []) = Inr S
      \<and> fst (requests_send (ticket_request ev E S) w) = Inr rsp
      \<and> status_code rsp \<noteq> 201
    \<longrightarrow> tool_calls_for ev (tc # tcs) touts w =
          tool_calls_for ev tcs
            (touts @ [\<lparr>tool_call_id = call_id tc,
                       output_payload = json_dumps_indent4 ev
                         (JObject [(''status_code'', JNum (str_int (status_code rsp))),
                                   (''error'', JString (text_body rsp))])\<rparr>])
            (snd (create_freshdesk_ticket ev E S w)))
   \<and> (function_name tc = ''create_freshdesk_ticket''
      \<and> json_loads ev (arguments_or (function_arguments tc)) = Inr fargs
      \<and> dict_get fargs ''Email'' (JString []) = Inr E
      \<and> dict_get fargs ''Subject'' (JString []) = Inr S
      \<and> fst (requests_send (ticket_request ev E S) w) = Inl e
    \<longrightarrow> fst (tool_calls_for ev (tc # tcs) touts w) = Inl e)
   \<and> (json_loads ev (arguments_or (function_arguments tc)) = Inl e
    \<longrightarrow> tool_calls_for ev (tc # tcs) touts w = (Inl e, w))
   \<and> (function_name c = ''send_email'' \<and> loads ev (function_arguments c) = Inl e
    \<longrightarrow> chat_for ev (c # calls) outs w = (Inl e, w))
   \<and> (status rn \<in> set active \<and> status rn' = ''requires_action''
      \<and> required_action rn' = Some tcs \<and> fst (tool_calls_for ev tcs [] w) = Inl e
    \<longrightarrow> fst (poll_while ev rn (Inr rn' # service) w) = Some (Inl e))
   \<and> (status rn = ''requires_action'' \<and> required_action rn = Some calls
      \<and> fst (chat_for ev calls [] w) = Inl e
    \<longrightarrow> fst (chat_while ev rn service w) = Some (Inl e))"
proof (intro conjI impI)
  assume a: "function_name c = ''send_email'' \<and> loads ev (function_arguments c) = Inr args
      \<and> subscript_key args ''email_to'' = Inr t
      \<and> subscript_key args ''email_subject'' = Inr s
      \<and> subscript_key args ''email_body'' = Inr b
      \<and> fst (logic_apps_post ev t s b w) = Inl e"
  then have "fst (send_email_function ev t s b w) = cross_mark @ '' Error: '' @ str_exn e"
    by (simp add: send_email_function_cases)
  with a chat_for_send [of c ev args t s b calls outs w]
  show "chat_for ev (c # calls) outs w =
          chat_for ev calls
            (outs @ [\<lparr>tool_call_id = call_id c,
                      output_payload = cross_mark @ '' Error: '' @ str_exn e\<rparr>])
            (snd (send_email_function ev t s b w))"
    by simp
next
  assume a: "function_name tc = ''create_freshdesk_ticket''
      \<and> json_loads ev (arguments_or (function_arguments tc)) = Inr fargs
      \<and> dict_get fargs ''Email'' (JString []) = Inr E
      \<and> dict_get fargs ''Subject'' (JString []) = Inr S
      \<and> fst (requests_send (ticket_request ev E S) w) = Inr rsp
      \<and> status_code rsp \<noteq> 201"
  then have "fst (create_freshdesk_ticket ev E S w) =
               Inr (json_dumps_indent4 ev
                      (JObject [(''status_code'', JNum (str_int (status_code rsp))),
                                (''error'', JString (text_body rsp))]))"
    by (simp add: create_freshdesk_ticket_cases)
  with a tool_calls_for_ticket [of tc ev fargs E S tcs touts w]
  show "tool_calls_for ev (tc # tcs) touts w =
          tool_calls_for ev tcs
            (touts @ [\<lparr>tool_call_id = call_id tc,
                       output_payload = json_dumps_indent4 ev
                         (JObject [(''status_code'', JNum (str_int (status_code rsp))),
                                   (''error'', JString (text_body rsp))])\<rparr>])
            (snd (create_freshdesk_ticket ev E S w))"
    by simp
next
  assume a: "function_name tc = ''create_freshdesk_ticket''
      \<and> json_loads ev (arguments_or (function_arguments tc)) = Inr fargs
      \<and> dict_get fargs ''Email'' (JString []) = Inr E
      \<and> dict_get fargs ''Subject'' (JString []) = Inr S
      \<and> fst (requests_send (ticket_request ev E S) w) = Inl e"
  then have "fst (create_freshdesk_ticket ev E S w) = Inl e"
    by (simp add: create_freshdesk_ticket_cases)
  with a tool_calls_for_ticket [of tc ev fargs E S tcs touts w]
  show "fst (tool_calls_for ev (tc # tcs) touts w) = Inl e"
    by simp
next
  assume "json_loads ev (arguments_or (function_arguments tc)) = Inl e"
  then show "tool_calls_for ev (tc # tcs) touts w = (Inl e, w)"
    by (rule tool_calls_for_raise_decode)
next
  assume "function_name c = ''send_email'' \<and> loads ev (function_arguments c) = Inl e"
  then have "function_name c = ''send_email''" and "loads ev (function_arguments c) = Inl e"
    by simp_all
  then show "chat_for ev (c # calls) outs w = (Inl e, w)"
    by (rule chat_for_raise_decode)
next
  assume "status rn \<in> set active \<and> status rn' = ''requires_action''
      \<and> required_action rn' = Some tcs \<and> fst (tool_calls_for ev tcs [] w) = Inl e"
  then have "status rn \<in> set active" and "status rn' = ''requires_action''"
    and "required_action rn' = Some tcs" and "fst (tool_calls_for ev tcs [] w) = Inl e"
    by simp_all
  then show "fst (poll_while ev rn (Inr rn' # service) w) = Some (Inl e)"
    by (rule poll_while_raise)
next
  assume "status rn = ''requires_action'' \<and> required_action rn = Some calls
      \<and> fst (chat_for ev calls [] w) = Inl e"
  then have "status rn = ''requires_action''" and "required_action rn = Some calls"
    and "fst (chat_for ev calls [] w) = Inl e"
    by simp_all
  then show "fst (chat_while ev rn service w) = Some (Inl e)"
    by (rule chat_while_raise)
qed

theorem failures_in_the_loops_witness:
  "fst (chat_for sample_env [mail_call] [] (fresh_world refuses))
     = Inr [\<lparr>tool_call_id = ''c4'',
             output_payload = cross_mark @ '' Error: Connection refused''\<rparr>]
   \<and> fst (tool_calls_for sample_env [ticket_call] []
            (fresh_world (answers 429 ''Too many'' (Inl (Exn JSONDecodeError [])))))
     = Inr [\<lparr>tool_call_id = ''c1'',
             output_payload =
               sample_dumps (JObject [(''status_code'', JNum (str_int 429)),
                                      (''error'', JString ''Too many'')])\<rparr>]
   \<and> fst (tool_calls_for sample_env [ticket_call, stray] [] (fresh_world refuses))
     = Inl (Exn RequestException ''Connection refused'')
   \<and> fst (tool_calls_for sample_env [garbled] [] (fresh_world refuses))
     = Inl (Exn JSONDecodeError ''Expecting value: line 1 column 1 (char 0)'')
   \<and> fst (chat_for sample_env [garbled\<lparr>function_name := ''send_email''\<rparr>] []
            (fresh_world refuses))
     = Inl (Exn JSONDecodeError ''Expecting value: line 1 column 1 (char 0)'')
   \<and> fst (poll_while sample_env \<lparr>status = ''queued'', required_action = None\<rparr>
            [Inr \<lparr>status = ''requires_action'',
                   required_action = Some [ticket_call, stray]\<rparr>]
            (fresh_world refuses))
     = Some (Inl (Exn RequestException ''Connection refused''))
   \<and> fst (chat_while sample_env
            \<lparr>status = ''requires_action'',
             required_action = Some [garbled\<lparr>function_name := ''send_email''\<rparr>]\<rparr>
            [] (fresh_world refuses))
     = Some (Inl (Exn JSONDecodeError ''Expecting value: line 1 column 1 (char 0)''))"
proof -
  let ?mis = "garbled\<lparr>function_name := ''send_email''\<rparr>"
  let ?t = "JString ''a@b.c''" and ?s = "JString ''Hi''" and ?b = "JString ''Hello''"
  let ?args = "JObject [(''email_to'', ?t), (''email_subject'', ?s), (''email_body'', ?b)]"
  let ?e = "Exn RequestException ''Connection refused''"
  let ?d = "Exn JSONDecodeError ''Expecting value: line 1 column 1 (char 0)''"
  let ?busy = "fresh_world (answers 429 ''Too many'' (Inl (Exn JSONDecodeError [])))"
  let ?rsp = "\<lparr>status_code = 429, text_body = ''Too many'',
               json_body = Inl (Exn JSONDecodeError [])\<rparr>"
  have m: "function_name mail_call = ''send_email''"
          "loads sample_env (function_arguments mail_call) = Inr ?args"
    by (simp_all add: mail_call_def sample_env_def sample_loads_def loads_def)
  have k: "subscript_key ?args ''email_to'' = Inr ?t"
          "subscript_key ?args ''email_subject'' = Inr ?s"
          "subscript_key ?args ''email_body'' = Inr ?b"
    by simp_all
  have p: "fst (logic_apps_post sample_env ?t ?s ?b (fresh_world refuses)) = Inl ?e"
    by (simp add: logic_apps_post_def sample_env_def requests_send_def fresh_world_def
                  refuses_def)
  have c: "function_name ticket_call = ''create_freshdesk_ticket''"
          "json_loads sample_env (arguments_or (function_arguments ticket_call))
             = Inr (JObject [])"
    by (simp_all add: ticket_call_def sample_env_def sample_loads_def arguments_or_def)
  have g: "dict_get (JObject []) ''Email'' (JString []) = Inr (JString [])"
          "dict_get (JObject []) ''Subject'' (JString []) = Inr (JString [])"
    by simp_all
  have r: "fst (requests_send (ticket_request sample_env (JString []) (JString [])) ?busy)
             = Inr ?rsp"
          "fst (requests_send (ticket_request sample_env (JString []) (JString []))
                  (fresh_world refuses)) = Inl ?e"
    by (simp_all add: requests_send_def fresh_world_def answers_def refuses_def)
  have d: "json_loads sample_env (arguments_or (function_arguments garbled)) = Inl ?d"
    by (simp add: garbled_def sample_env_def sample_loads_def arguments_or_def)
  have "chat_for sample_env [mail_call] [] (fresh_world refuses) =
          chat_for sample_env []
            ([] @ [\<lparr>tool_call_id = call_id mail_call,
                    output_payload = cross_mark @ '' Error: '' @ str_exn ?e\<rparr>])
            (snd (send_email_function sample_env ?t ?s ?b (fresh_world refuses)))"
    using failures_in_the_loops
            [of mail_call sample_env ?args ?t ?s ?b "fresh_world refuses" ?e "[]" "[]"]
          m k p
    by blast
  then have one: "fst (chat_for sample_env [mail_call] [] (fresh_world refuses))
     = Inr [\<lparr>tool_call_id = ''c4'',
             output_payload = cross_mark @ '' Error: Connection refused''\<rparr>]"
    by (simp add: mail_call_def)
  have "status_code ?rsp \<noteq> 201" by simp
  then have "tool_calls_for sample_env [ticket_call] [] ?busy =
          tool_calls_for sample_env []
            ([] @ [\<lparr>tool_call_id = call_id ticket_call,
                    output_payload = json_dumps_indent4 sample_env
                      (JObject [(''status_code'', JNum (str_int (status_code ?rsp))),
                                (''error'', JString (text_body ?rsp))])\<rparr>])
            (snd (create_freshdesk_ticket sample_env (JString []) (JString []) ?busy))"
    using failures_in_the_loops
            [of _ sample_env _ _ _ _ ?busy _ _ _ ticket_call "JObject []"
                "JString []" "JString []" ?rsp "[]" "[]"]
          c g r(1)
    by blast
  then have two: "fst (tool_calls_for sample_env [ticket_call] [] ?busy)
     = Inr [\<lparr>tool_call_id = ''c1'',
             output_payload =
               sample_dumps (JObject [(''status_code'', JNum (str_int 429)),
                                      (''error'', JString ''Too many'')])\<rparr>]"
    by (simp add: ticket_call_def sample_env_def)
  have three: "fst (tool_calls_for sample_env [ticket_call, stray] [] (fresh_world refuses))
                 = Inl ?e"
    using failures_in_the_loops
            [of _ sample_env _ _ _ _ "fresh_world refuses" ?e _ _ ticket_call
                "JObject []" "JString []" "JString []" _ "[stray]" "[]"]
          c g r(2)
    by blast
  have "tool_calls_for sample_env [garbled] [] (fresh_world refuses)
          = (Inl ?d, fresh_world refuses)"
    using failures_in_the_loops
            [of _ sample_env _ _ _ _ "fresh_world refuses" ?d _ _ garbled _ _ _ _ "[]" "[]"]
          d
    by blast
  then have four: "fst (tool_calls_for sample_env [garbled] [] (fresh_world refuses)) = Inl ?d"
    by simp
  have "function_name ?mis = ''send_email''"
    and "loads sample_env (function_arguments ?mis) = Inl ?d"
    by (simp_all add: garbled_def loads_def sample_env_def sample_loads_def)
  then have "chat_for sample_env [?mis] [] (fresh_world refuses)
               = (Inl ?d, fresh_world refuses)"
    using failures_in_the_loops
            [of ?mis sample_env _ _ _ _ "fresh_world refuses" ?d "[]" "[]"]
    by blast
  then have five: "fst (chat_for sample_env [?mis] [] (fresh_world refuses)) = Inl ?d"
    by simp
  have "status \<lparr>status = ''queued'', required_action = None\<rparr> \<in> set active"
    and "status \<lparr>status = ''requires_action'',
                 required_action = Some [ticket_call, stray]\<rparr> = ''requires_action''"
    and "required_action \<lparr>status = ''requires_action'',
                 required_action = Some [ticket_call, stray]\<rparr> = Some [ticket_call, stray]"
    by (simp_all add: active_def)
  with three
  have six: "fst (poll_while sample_env \<lparr>status = ''queued'', required_action = None\<rparr>
            [Inr \<lparr>status = ''requires_action'',
                   required_action = Some [ticket_call, stray]\<rparr>]
            (fresh_world refuses)) = Some (Inl ?e)"
    using failures_in_the_loops
            [of _ sample_env _ _ _ _ "fresh_world refuses" ?e _ _ _ _ _ _ _
                "[ticket_call, stray]" _
                "\<lparr>status = ''queued'', required_action = None\<rparr>"
                "\<lparr>status = ''requires_action'',
                  required_action = Some [ticket_call, stray]\<rparr>" "[]"]
    by blast
  have "status \<lparr>status = ''requires_action'', required_action = Some [?mis]\<rparr>
          = ''requires_action''"
    and "required_action \<lparr>status = ''requires_action'', required_action = Some [?mis]\<rparr>
          = Some [?mis]"
    by simp_all
  with five
  have seven: "fst (chat_while sample_env
            \<lparr>status = ''requires_action'', required_action = Some [?mis]\<rparr>
            [] (fresh_world refuses)) = Some (Inl ?d)"
    using failures_in_the_loops
            [of _ sample_env _ _ _ _ "fresh_world refuses" ?d "[?mis]" _ _ _ _ _ _ _ _
                "\<lparr>status = ''requires_action'', required_action = Some [?mis]\<rparr>" _ "[]"]
    by blast
  from one two three four five six seven show ?thesis by blast
qed

section \<open>A call of a tool that is not registered\<close>

text \<open>
  The Freshdesk loop answers a call of any other name than \<open>create_freshdesk_ticket\<close>
  with an \<open>Unknown tool\<close> error (lemma \<open>tool_calls_for_unknown\<close>); the email loop has no
  such branch.
\<close>

text \<open>
  Claim C2, in the email loop: a call of \<open>get_weather\<close> gets no output at all. No handler
  is invoked, and \<open>chat\<close> submits an empty list of outputs for the run.
\<close>

theorem unknown_tool_in_chat:
  "chat_for sample_env [stray] [] (fresh_world refuses) = (Inr [], fresh_world refuses)
   \<and> chat_while sample_env \<lparr>status = ''requires_action'', required_action = Some [stray]\<rparr>
        [Inr \<lparr>status = ''queued'', required_action = None\<rparr>,
         Inr \<lparr>status = ''completed'', required_action = None\<rparr>] (fresh_world refuses)
     = (Some (Inr \<lparr>status = ''completed'', required_action = None\<rparr>),
        (fresh_world refuses)\<lparr>submitted := [[]]\<rparr>)"
  by (simp add: stray_def active_def submit_tool_outputs_def fresh_world_def)

text \<open>
  Claim C5, in the email loop: of the two calls \<open>c2\<close> (to \<open>get_weather\<close>) and \<open>c4\<close> (to
  \<open>send_email\<close>), only the second gets an output, so that the output at the first
  position carries the identifier of the second call.
\<close>

theorem outputs_shifted_in_chat:
  "map call_id (stray # sample_mail) = [''c2'', ''c4'']
   \<and> fst (chat_for sample_env (stray # sample_mail) []
            (fresh_world (answers 202 ''Accepted'' (Inr JNull))))
     = Inr [\<lparr>tool_call_id = ''c4'', output_payload = check_mark @ '' Email sent!''\<rparr>]"
  by (simp add: stray_def sample_mail_def mail_call_def sample_env_def sample_loads_def
        loads_def bind_exn_def send_email_function_def send_email_try_def
        logic_apps_post_def requests_send_def enter_def fresh_world_def answers_def)

end
